theory Spec2Isabelle
  imports Complex_Main
begin

section \<open>Python values and containers\<close>

text \<open>
  The exceptions the modelled code can raise.  A function of the source that can raise
  returns \<open>py_error + 'a\<close>, with \<open>Inl\<close> for the exception.  \<open>NotFinite\<close> is
  no exception: it marks the one computation the model does not follow (a not-a-number
  sample entering a transform).
\<close>

datatype py_error =
    IndexError
  | KeyError
  | ValueError
  | TypeError
  | AttributeError
  | ZeroDivisionError
  | RuntimeError
  | NotFinite

text \<open>
  Indexing a Python list with an integer: a negative index counts from the end, an index
  out of range raises \<open>IndexError\<close>.
\<close>

definition py_index :: "'a list \<Rightarrow> int \<Rightarrow> py_error + nat" where
  "py_index xs i =
     (let n = int (length xs); j = (if i < 0 then n + i else i)
      in if 0 \<le> j \<and> j < n then Inr (nat j) else Inl IndexError)"

definition py_getitem :: "'a list \<Rightarrow> int \<Rightarrow> py_error + 'a" where
  "py_getitem xs i = (case py_index xs i of Inl e \<Rightarrow> Inl e | Inr j \<Rightarrow> Inr (xs ! j))"

definition py_setitem :: "'a list \<Rightarrow> int \<Rightarrow> 'a \<Rightarrow> py_error + 'a list" where
  "py_setitem xs i v = (case py_index xs i of Inl e \<Rightarrow> Inl e | Inr j \<Rightarrow> Inr (xs[j := v]))"

text \<open>
  A string is the list of its code points, each below 256.  The characters that
  \<open>str.split()\<close> and \<open>str.isspace\<close> take for white space are, among those, the
  space, \<open>0x09\<close> to \<open>0x0D\<close>, \<open>0x1C\<close> to \<open>0x1F\<close>, the next-line character
  \<open>0x85\<close> and the no-break space \<open>0xA0\<close>.
\<close>

definition is_space :: "char \<Rightarrow> bool" where
  "is_space c = (c \<in> set [CHR '' '', CHR 0x09, CHR 0x0A, CHR 0x0B, CHR 0x0C, CHR 0x0D,
                           CHR 0x1C, CHR 0x1D, CHR 0x1E, CHR 0x1F, CHR 0x85, CHR 0xA0])"

text \<open>
  \<open>str.split()\<close> without arguments: the maximal runs of characters that are not
  white space, in order.  The accumulator holds the token being read.
\<close>

fun split_acc :: "string \<Rightarrow> string \<Rightarrow> string list" where
  "split_acc [] tok = (if tok = [] then [] else [tok])"
| "split_acc (c # cs) tok =
     (if is_space c then (if tok = [] then split_acc cs [] else tok # split_acc cs [])
      else split_acc cs (tok @ [c]))"

definition str_split :: "string \<Rightarrow> string list" where
  "str_split s = split_acc s []"


section \<open>inline\_pose\_parser.py: InlinePoseParser\<close>

record InlinePoseParser =
  filtersUpdated :: "bool list"
  valueList :: "int list list"

definition defaultValue :: "int list" where
  "defaultValue = [0, 0, 0, 0, 0, 0, 0, 0, 0]"

text \<open>\<open>[True] * maxChannels\<close> is the empty list for a count that is not positive.\<close>

definition InlinePoseParser_init :: "int \<Rightarrow> InlinePoseParser" where
  "InlinePoseParser_init maxChannels =
     \<lparr> filtersUpdated = replicate (nat maxChannels) True,
       valueList = replicate (nat maxChannels) defaultValue \<rparr>"

definition parse_pose_input ::
  "InlinePoseParser \<Rightarrow> int \<Rightarrow> int \<Rightarrow> int \<Rightarrow> py_error + InlinePoseParser" where
  "parse_pose_input p channel azimuth elevation =
     (let poseData = [azimuth, elevation] in
      case py_getitem (valueList p) channel of
        Inl e \<Rightarrow> Inl e
      | Inr stored \<Rightarrow>
          if poseData \<noteq> take (length poseData) stored then
            (case py_setitem (filtersUpdated p) channel True of
               Inl e \<Rightarrow> Inl e
             | Inr fu \<Rightarrow>
                 (case py_setitem (valueList p) channel
                         (poseData @ drop (length poseData) defaultValue) of
                    Inl e \<Rightarrow> Inl e
                  | Inr vl \<Rightarrow> Inr (p\<lparr>filtersUpdated := fu, valueList := vl\<rparr>)))
          else Inr p)"

definition is_filter_update_necessary :: "InlinePoseParser \<Rightarrow> int \<Rightarrow> py_error + bool" where
  "is_filter_update_necessary p channel = py_getitem (filtersUpdated p) channel"

definition get_current_values ::
  "InlinePoseParser \<Rightarrow> int \<Rightarrow> py_error + (InlinePoseParser \<times> int list)" where
  "get_current_values p channel =
     (case py_setitem (filtersUpdated p) channel False of
        Inl e \<Rightarrow> Inl e
      | Inr fu \<Rightarrow>
          (case py_getitem (valueList p) channel of
             Inl e \<Rightarrow> Inl e
           | Inr v \<Rightarrow> Inr (p\<lparr>filtersUpdated := fu\<rparr>, v)))"

text \<open>A sequence of pose updates \<open>(channel, azimuth, elevation)\<close>, in order.\<close>

fun parse_pose_inputs ::
  "InlinePoseParser \<Rightarrow> (int \<times> int \<times> int) list \<Rightarrow> py_error + InlinePoseParser" where
  "parse_pose_inputs p [] = Inr p"
| "parse_pose_inputs p ((c, a, e) # us) =
     (case parse_pose_input p c a e of
        Inl err \<Rightarrow> Inl err
      | Inr p' \<Rightarrow> parse_pose_inputs p' us)"

text \<open>The two per-channel lists of a parser built for \<open>m\<close> channels keep \<open>m\<close> entries.\<close>

definition parser_channels :: "InlinePoseParser \<Rightarrow> nat \<Rightarrow> bool" where
  "parser_channels p m = (length (filtersUpdated p) = m \<and> length (valueList p) = m)"

definition update_in_range :: "nat \<Rightarrow> int \<times> int \<times> int \<Rightarrow> bool" where
  "update_in_range m u = (0 \<le> fst u \<and> fst u < int m)"

definition same_pose_on :: "int \<Rightarrow> int list \<Rightarrow> int \<times> int \<times> int \<Rightarrow> bool" where
  "same_pose_on ch v u = (fst u \<noteq> ch \<or> [fst (snd u), snd (snd u)] = take 2 v)"


section \<open>application.py: parse\_boolean and BinSimConfig\<close>

text \<open>
  The values a configuration entry holds.  The constructors of \<open>int\<close> and \<open>float\<close>
  that \<open>read_from_file\<close> applies to a token are Python built-ins; they are parameters of
  the model (\<open>int_ctor\<close>, \<open>float_ctor\<close>), each returning the number read or the
  exception raised.
\<close>

datatype config_value =
    VStr string
  | VInt int
  | VFloat real
  | VBool bool
  | VNone

definition parse_boolean :: "config_value \<Rightarrow> config_value" where
  "parse_boolean any_value =
     (case any_value of
        VBool b \<Rightarrow> VBool b
      | _ \<Rightarrow>
          if any_value = VStr ''True'' then VBool True
          else if any_value = VStr ''False'' then VBool False
          else VNone)"

record BinSimConfig =
  configurationDict :: "string \<rightharpoonup> config_value"
  config_log :: "string list"

definition BinSimConfig_init :: BinSimConfig where
  "BinSimConfig_init =
     \<lparr> configurationDict =
         [''soundfile'' \<mapsto> VStr '''',
          ''blockSize'' \<mapsto> VInt 256,
          ''filterSize'' \<mapsto> VInt 16384,
          ''filterList'' \<mapsto> VStr ''brirs/filter_list_kemar5.txt'',
          ''enableCrossfading'' \<mapsto> VBool False,
          ''useHeadphoneFilter'' \<mapsto> VBool False,
          ''loudnessFactor'' \<mapsto> VFloat 1,
          ''maxChannels'' \<mapsto> VInt 8,
          ''samplingRate'' \<mapsto> VInt 44100,
          ''loopSound'' \<mapsto> VBool True],
       config_log = [] \<rparr>"

text \<open>
  One iteration of the loop of \<open>read_from_file\<close>.  The type of the value stored under
  the key selects the conversion; \<open>NoneType\<close> accepts no argument.
\<close>

definition read_line ::
  "(string \<Rightarrow> py_error + int) \<Rightarrow> (string \<Rightarrow> py_error + real) \<Rightarrow>
   BinSimConfig \<Rightarrow> string \<Rightarrow> py_error + BinSimConfig" where
  "read_line int_ctor float_ctor c line =
     (let line_content = str_split line in
      case py_getitem line_content 0 of
        Inl e \<Rightarrow> Inl e
      | Inr key \<Rightarrow>
         (case py_getitem line_content 1 of
            Inl e \<Rightarrow> Inl e
          | Inr val \<Rightarrow>
             (case configurationDict c key of
                Some (VBool b) \<Rightarrow>
                  (let boolean_config = parse_boolean (VStr val);
                       c' = (if boolean_config = VNone
                             then c\<lparr>config_log := config_log c @
                                    [''Cannot convert '' @ val @ '' to bool. (key: '' @ key]\<rparr>
                             else c)
                   in Inr (c'\<lparr>configurationDict :=
                                (configurationDict c')(key \<mapsto> boolean_config)\<rparr>))
              | Some (VStr s) \<Rightarrow>
                  Inr (c\<lparr>configurationDict := (configurationDict c)(key \<mapsto> VStr val)\<rparr>)
              | Some (VInt i) \<Rightarrow>
                  (case int_ctor val of
                     Inl e \<Rightarrow> Inl e
                   | Inr n \<Rightarrow>
                       Inr (c\<lparr>configurationDict := (configurationDict c)(key \<mapsto> VInt n)\<rparr>))
              | Some (VFloat f) \<Rightarrow>
                  (case float_ctor val of
                     Inl e \<Rightarrow> Inl e
                   | Inr x \<Rightarrow>
                       Inr (c\<lparr>configurationDict := (configurationDict c)(key \<mapsto> VFloat x)\<rparr>))
              | Some VNone \<Rightarrow> Inl TypeError
              | None \<Rightarrow>
                  Inr (c\<lparr>config_log := config_log c @ [''Entry '' @ key @ '' is unknown'']\<rparr>))))"

text \<open>The file is the list of its lines; an exception ends the loop.\<close>

fun read_from_file ::
  "(string \<Rightarrow> py_error + int) \<Rightarrow> (string \<Rightarrow> py_error + real) \<Rightarrow>
   BinSimConfig \<Rightarrow> string list \<Rightarrow> py_error + BinSimConfig" where
  "read_from_file int_ctor float_ctor c [] = Inr c"
| "read_from_file int_ctor float_ctor c (line # rest) =
     (case read_line int_ctor float_ctor c line of
        Inl e \<Rightarrow> Inl e
      | Inr c' \<Rightarrow> read_from_file int_ctor float_ctor c' rest)"

definition config_get :: "BinSimConfig \<Rightarrow> string \<Rightarrow> py_error + config_value" where
  "config_get c setting =
     (case configurationDict c setting of None \<Rightarrow> Inl KeyError | Some v \<Rightarrow> Inr v)"


section \<open>Arrays and transforms of the numeric libraries\<close>

text \<open>
  Samples (\<open>float32\<close>) are modelled as reals and spectra (\<open>complex64\<close>) as complex
  numbers: arithmetic is exact.  A one-dimensional array is a list, a two-dimensional
  array a list of rows.

  The plans of the FFT library are modelled by the transforms they compute.
  \<open>rfft\<close> is the discrete Fourier transform of a real sequence of length \<open>n\<close>,
  of which the bins \<open>0 .. n div 2\<close> are kept; \<open>irfft\<close> takes \<open>m + 1\<close>
  bins to the real sequence of length \<open>2 m\<close> (the imaginary parts of the first and
  of the last bin do not contribute).
\<close>

definition rfft :: "real list \<Rightarrow> complex list" where
  "rfft x =
     (let n = length x in
      map (\<lambda>k. Complex
                 (sum_list (map (\<lambda>j. x ! j * cos (2 * pi * real k * real j / real n)) [0..<n]))
                 (- sum_list (map (\<lambda>j. x ! j * sin (2 * pi * real k * real j / real n)) [0..<n])))
          [0..<n div 2 + 1])"

definition irfft :: "complex list \<Rightarrow> real list" where
  "irfft Y =
     (let m = length Y - 1; n = 2 * m in
      map (\<lambda>j. (Re (Y ! 0)
                 + sum_list (map (\<lambda>k. 2 * (Re (Y ! k) * cos (2 * pi * real k * real j / real n)
                                            - Im (Y ! k) * sin (2 * pi * real k * real j / real n)))
                               [1..<m])
                 + Re (Y ! m) * (- 1) ^ j) / real n)
          [0..<n])"

text \<open>
  What \<open>soundfile.read\<close> returns for a file: a one-dimensional array for a mono file,
  rows of \<open>c\<close> samples for a file of \<open>c\<close> channels (the number of columns is kept
  beside the rows, an array without rows has a shape too).
\<close>

datatype ndarray = Arr1 "real list" | Arr2 "real list list" nat

definition shape0 :: "ndarray \<Rightarrow> nat" where
  "shape0 a = (case a of Arr1 v \<Rightarrow> length v | Arr2 rows c \<Rightarrow> length rows)"

definition np_zeros2 :: "nat \<Rightarrow> nat \<Rightarrow> ndarray" where
  "np_zeros2 r c = Arr2 (replicate r (replicate c 0)) c"

text \<open>\<open>np.concatenate((a, b), 0)\<close>: both two-dimensional, with the same number of columns.\<close>

definition np_concatenate0 :: "ndarray \<Rightarrow> ndarray \<Rightarrow> py_error + ndarray" where
  "np_concatenate0 a b =
     (case (a, b) of
        (Arr2 ra ca, Arr2 rb cb) \<Rightarrow> if ca = cb then Inr (Arr2 (ra @ rb) ca) else Inl ValueError
      | (Arr1 va, Arr1 vb) \<Rightarrow> Inr (Arr1 (va @ vb))
      | _ \<Rightarrow> Inl ValueError)"

definition np_column_stack2 :: "ndarray \<Rightarrow> ndarray" where
  "np_column_stack2 a =
     (case a of
        Arr1 v \<Rightarrow> Arr2 (map (\<lambda>x. [x, x]) v) 2
      | Arr2 rows c \<Rightarrow> Arr2 (map (\<lambda>r. r @ r) rows) (2 * c))"

definition np_take_rows :: "nat \<Rightarrow> ndarray \<Rightarrow> ndarray" where
  "np_take_rows n a = (case a of Arr1 v \<Rightarrow> Arr1 (take n v) | Arr2 rows c \<Rightarrow> Arr2 (take n rows) c)"

text \<open>\<open>a[:, j]\<close>.\<close>

definition np_column :: "ndarray \<Rightarrow> nat \<Rightarrow> py_error + real list" where
  "np_column a j =
     (case a of
        Arr1 v \<Rightarrow> Inl IndexError
      | Arr2 rows c \<Rightarrow> if j < c then Inr (map (\<lambda>r. r ! j) rows) else Inl IndexError)"

text \<open>\<open>np.reshape(v, (r, c))\<close> of a one-dimensional array.\<close>

definition np_reshape :: "real list \<Rightarrow> nat \<Rightarrow> nat \<Rightarrow> py_error + real list list" where
  "np_reshape v r c =
     (if length v = r * c then Inr (map (\<lambda>i. take c (drop (i * c) v)) [0..<r])
      else Inl ValueError)"

definition czeros :: "nat \<Rightarrow> nat \<Rightarrow> complex list list" where
  "czeros r c = replicate r (replicate c 0)"

text \<open>
  A plan built by \<open>pyfftw.builders.rfft(np.zeros((blocks, block_size)), n=block_size*2, axis=1)\<close>:
  called with an array of the shape it was built for, it transforms every row, padded with
  zeros to \<open>2 * block_size\<close> samples; another shape is refused.
\<close>

record fft_plan =
  plan_blocks :: nat
  plan_block_size :: nat

definition plan_call :: "fft_plan \<Rightarrow> real list list \<Rightarrow> py_error + complex list list" where
  "plan_call plan a =
     (if length a = plan_blocks plan \<and> list_all (\<lambda>r. length r = plan_block_size plan) a
      then Inr (map (\<lambda>r. rfft (r @ replicate (plan_block_size plan) 0)) a)
      else Inl ValueError)"


section \<open>filterstorage.py: Filter\<close>

record Filter =
  ir_blocks :: nat
  block_size :: nat
  TF_blocks :: nat
  TF_block_size :: nat
  IR_left_blocked :: "real list list option"
  IR_right_blocked :: "real list list option"
  filename :: "string option"
  fd_available :: bool
  TF_left_blocked :: "complex list list option"
  TF_right_blocked :: "complex list list option"

definition Filter_init :: "ndarray \<Rightarrow> nat \<Rightarrow> nat \<Rightarrow> string option \<Rightarrow> py_error + Filter" where
  "Filter_init inputfilter irBlocks blockSize fname =
     (case np_column inputfilter 0 of
        Inl e \<Rightarrow> Inl e
      | Inr col0 \<Rightarrow>
         (case np_reshape col0 irBlocks blockSize of
            Inl e \<Rightarrow> Inl e
          | Inr left \<Rightarrow>
             (case np_column inputfilter 1 of
                Inl e \<Rightarrow> Inl e
              | Inr col1 \<Rightarrow>
                 (case np_reshape col1 irBlocks blockSize of
                    Inl e \<Rightarrow> Inl e
                  | Inr right \<Rightarrow>
                      Inr \<lparr> ir_blocks = irBlocks,
                            block_size = blockSize,
                            TF_blocks = irBlocks,
                            TF_block_size = blockSize + 1,
                            IR_left_blocked = Some left,
                            IR_right_blocked = Some right,
                            filename = fname,
                            fd_available = False,
                            TF_left_blocked = None,
                            TF_right_blocked = None \<rparr>))))"

text \<open>
  \<open>storeInFDomain\<close>.  The source calls it once per filter, on time-domain blocks of the
  shape the constructor gave them; a filter whose time-domain blocks are already discarded
  is refused here.
\<close>

definition storeInFDomain :: "Filter \<Rightarrow> fft_plan \<Rightarrow> py_error + Filter" where
  "storeInFDomain f plan =
     (case (IR_left_blocked f, IR_right_blocked f) of
        (Some left, Some right) \<Rightarrow>
          (case plan_call plan left of
             Inl e \<Rightarrow> Inl e
           | Inr tfl \<Rightarrow>
              (case plan_call plan right of
                 Inl e \<Rightarrow> Inl e
               | Inr tfr \<Rightarrow>
                   Inr (f\<lparr> TF_left_blocked := Some tfl,
                           TF_right_blocked := Some tfr,
                           fd_available := True,
                           IR_left_blocked := None,
                           IR_right_blocked := None \<rparr>)))
      | _ \<Rightarrow> Inl TypeError)"

text \<open>
  \<open>getFilterFD\<close> returns the pair \<open>(left, right)\<close>; the model returns, before the
  pair, the warnings the call logs.  A field that is \<open>None\<close> is returned as it is.
\<close>

definition getFilterFD ::
  "Filter \<Rightarrow> string list \<times> complex list list option \<times> complex list list option" where
  "getFilterFD f =
     (if \<not> fd_available f then
        ([''FilterStorage: No frequency domain filter available!''],
         Some (czeros (ir_blocks f) (block_size f + 1)),
         Some (czeros (ir_blocks f) (block_size f + 1)))
      else ([], TF_left_blocked f, TF_right_blocked f))"

datatype FilterType = Undefined | Filter | LateReverbFilter | Directivity


text \<open>
  Sequencing of calls that can raise: the first exception ends the computation.
\<close>

definition andThen :: "py_error + 'a \<Rightarrow> ('a \<Rightarrow> py_error + 'b) \<Rightarrow> py_error + 'b" where
  "andThen r f = (case r of Inl e \<Rightarrow> Inl e | Inr x \<Rightarrow> f x)"

text \<open>
  The cosine-square crossfade window both \<open>FilterStorage\<close> and \<open>ConvolverFFTW\<close>
  compute: \<open>square(cos(arange(block_size) / (block_size - 1) * (pi / 2)))\<close>.  For
  \<open>block_size = 1\<close> the only entry is \<open>0 / 0\<close>, which is not a number: \<open>None\<close>.
  The entries are the exact values.  The source computes them in \<open>float32\<close>; that
  rounding is not modelled (there the entry at \<open>block_size - 1\<close>, exactly \<open>0\<close>
  here, is about \<open>1.9e-15\<close>, and an entry and its mirror image need not sum to one).
\<close>

definition cosine_square_window :: "nat \<Rightarrow> real option list" where
  "cosine_square_window n =
     map (\<lambda>i. if real n - 1 = 0 then None
               else Some ((cos (real i / (real n - 1) * (pi / 2)))\<^sup>2))
         [0..<n]"


section \<open>Pose\<close>

text \<open>
  The values the source hands to a pose: tokens of the filter list (strings), integers
  of a request, coordinates stored as floats.
\<close>

datatype pyval = PStr string | PInt int | PFloat real

text \<open>
  Modelled from the spec: the class \<open>Pose\<close> (\<open>pybinsim/pose.py\<close> is not among the
  sources).  A pose is the tuple of its fields, taken as they are given (the spec: no
  failure modes, parsing is the caller's responsibility).
\<close>

datatype Pose = Pose (pose_fields: "pyval list")

text \<open>
  Modelled from the spec: \<open>Pose.from_filterValueList\<close> (the spec's \<open>from_fields\<close>).
\<close>

definition from_filterValueList :: "pyval list \<Rightarrow> Pose" where
  "from_filterValueList filter_value_list = Pose filter_value_list"

text \<open>
  Modelled from the spec: \<open>pose.orientation[0:2]\<close>, the spec's \<open>coord\<close>: the first two
  fields, azimuth and elevation.
\<close>

definition orientation02 :: "Pose \<Rightarrow> pyval list" where
  "orientation02 p = take 2 (pose_fields p)"

text \<open>
  Modelled from the spec: \<open>Pose.create_key\<close>, a deterministic identifier derived from
  all fields, collision-free across distinct tuples: the tuple of the fields itself.
\<close>

definition create_key :: "Pose \<Rightarrow> pyval list" where
  "create_key p = pose_fields p"

text \<open>\<open>float(x)\<close>; the conversion of a string is the parameter \<open>float_ctor\<close>.\<close>

definition py_float :: "(string \<Rightarrow> py_error + real) \<Rightarrow> pyval \<Rightarrow> py_error + real" where
  "py_float float_ctor v =
     (case v of PStr s \<Rightarrow> float_ctor s | PInt i \<Rightarrow> Inr (real_of_int i) | PFloat x \<Rightarrow> Inr x)"

fun py_floats :: "(string \<Rightarrow> py_error + real) \<Rightarrow> pyval list \<Rightarrow> py_error + real list" where
  "py_floats float_ctor [] = Inr []"
| "py_floats float_ctor (v # vs) =
     andThen (py_float float_ctor v) (\<lambda>x.
     andThen (py_floats float_ctor vs) (\<lambda>xs. Inr (x # xs)))"


section \<open>The nearest-neighbour search of scipy\<close>

text \<open>
  \<open>KDTree(data)\<close> needs a two-dimensional array: at least one point, all points of one
  dimension.  \<open>query(x)\<close> returns the distance to, and the index of, a point of the
  data nearest to \<open>x\<close> in Euclidean distance; the model returns the index (the source
  does not use the distance), the first one among equally near points.
\<close>

datatype KDTree = KDTree (tree_data: "real list list")

definition KDTree_build :: "real list list \<Rightarrow> py_error + KDTree" where
  "KDTree_build pts =
     (case pts of
        [] \<Rightarrow> Inl ValueError
      | p # ps \<Rightarrow> if list_all (\<lambda>q. length q = length p) ps then Inr (KDTree pts)
                  else Inl ValueError)"

definition sqdist :: "real list \<Rightarrow> real list \<Rightarrow> real" where
  "sqdist x y = sum_list (map2 (\<lambda>a b. (a - b)\<^sup>2) x y)"

fun argmin_acc :: "real list \<Rightarrow> nat \<Rightarrow> nat \<Rightarrow> real \<Rightarrow> nat" where
  "argmin_acc [] i best bv = best"
| "argmin_acc (d # ds) i best bv =
     (if d < bv then argmin_acc ds (Suc i) i d else argmin_acc ds (Suc i) best bv)"

definition KDTree_query :: "KDTree \<Rightarrow> real list \<Rightarrow> py_error + int" where
  "KDTree_query t x =
     (case tree_data t of
        [] \<Rightarrow> Inl ValueError
      | p # ps \<Rightarrow>
          if length x = length p
          then Inr (int (argmin_acc (map (sqdist x) ps) 1 0 (sqdist x p)))
          else Inl ValueError)"


section \<open>filterstorage.py: FilterStorage\<close>

text \<open>
  The attributes that \<open>__init__\<close> sets only in headphone or split-filter mode are
  options: reading one that was never set raises \<open>AttributeError\<close>.  The trees are
  \<open>0\<close> until \<open>load_filters\<close> builds them (\<open>None\<close> here).  The keys of the
  dictionaries are the keys of poses.
\<close>

record FilterStorage =
  ir_size :: nat
  ir_blocks :: nat
  block_size :: nat
  filter_fftw_plan :: fft_plan
  default_filter :: Filter
  crossFadeOut :: "real option list"
  crossFadeIn :: "real option list"
  useHeadphoneFilter :: bool
  headPhoneFilterSize :: "nat option"
  headphone_ir_blocks :: "nat option"
  hp_filter_fftw_plan :: "fft_plan option"
  useSplittedFilters :: bool
  lateReverbSize :: "nat option"
  late_ir_blocks :: "nat option"
  late_filter_fftw_plan :: "fft_plan option"
  default_late_reverb_filter :: "Filter option"
  directivitySize :: nat
  dir_ir_blocks :: nat
  default_directivity_filter :: Filter
  headphone_filter :: "Filter option"
  filter_dict :: "pyval list \<rightharpoonup> Filter"
  late_reverb_filter_dict :: "pyval list \<rightharpoonup> Filter"
  directivity_dict :: "pyval list \<rightharpoonup> Filter"
  filter_arr :: "real list list"
  late_reverb_arr :: "real list list"
  directivity_arr :: "real list list"
  filter_tree :: "KDTree option"
  late_reverb_tree :: "KDTree option"
  directivity_tree :: "KDTree option"

definition attr :: "'a option \<Rightarrow> py_error + 'a" where
  "attr x = (case x of None \<Rightarrow> Inl AttributeError | Some v \<Rightarrow> Inr v)"

text \<open>
  \<open>soundfile.read(path, dtype='float32')\<close> on the files \<open>fs\<close>; with \<open>always_2d\<close>
  a mono file is read as rows of one sample.
\<close>

definition sf_read :: "(string \<rightharpoonup> ndarray) \<Rightarrow> string \<Rightarrow> bool \<Rightarrow> py_error + ndarray" where
  "sf_read fs path always_2d =
     (case fs path of
        None \<Rightarrow> Inl RuntimeError
      | Some a \<Rightarrow>
          Inr (if always_2d then (case a of Arr1 v \<Rightarrow> Arr2 (map (\<lambda>x. [x]) v) 1 | Arr2 rows c \<Rightarrow> a)
               else a))"

definition load_filter ::
  "FilterStorage \<Rightarrow> (string \<rightharpoonup> ndarray) \<Rightarrow> string \<Rightarrow> FilterType \<Rightarrow> py_error + ndarray" where
  "load_filter st fs filter_path filter_type =
     andThen (sf_read fs filter_path (filter_type = Directivity)) (\<lambda>read.
       let current_filter = (if filter_type \<noteq> Directivity then read else np_column_stack2 read);
           filter_size0 = shape0 current_filter
       in
       andThen (if filter_type = Filter \<and> filter_size0 < ir_size st
                then np_concatenate0 current_filter (np_zeros2 (ir_size st - filter_size0) 2)
                else Inr current_filter) (\<lambda>current_filter.
         if filter_type = Filter then
           Inr (if filter_size0 > ir_size st then np_take_rows (ir_size st) current_filter
                else current_filter)
         else if filter_type = LateReverbFilter then
           andThen (attr (lateReverbSize st)) (\<lambda>lrs.
             Inr (if filter_size0 > lrs then np_take_rows lrs current_filter
                  else current_filter))
         else if filter_type = Directivity then
           (if filter_size0 > directivitySize st
            then Inr (np_take_rows (directivitySize st) current_filter)
            else if filter_size0 < directivitySize st
            then np_concatenate0 current_filter
                   (np_zeros2 (directivitySize st - filter_size0) 2)
            else Inr current_filter)
         else Inr current_filter))"

definition startswith :: "string \<Rightarrow> string \<Rightarrow> bool" where
  "startswith s pre = (take (length pre) s = pre)"

definition isdigit :: "string \<Rightarrow> bool" where
  "isdigit s = (s \<noteq> [] \<and> list_all (\<lambda>c. c \<in> set ''0123456789'') s)"

text \<open>
  One line of \<open>parse_filter_list\<close>: the storage (a headphone filter is loaded while
  parsing) and the entry the line yields, if any.
\<close>

definition parse_filter_line ::
  "FilterStorage \<Rightarrow> (string \<rightharpoonup> ndarray) \<Rightarrow> string \<Rightarrow>
   py_error + (FilterStorage \<times> (Pose \<times> string \<times> FilterType) option)" where
  "parse_filter_line st fs line =
     (if startswith line ''#'' \<or> line = [CHR 0x0A] then Inr (st, None)
      else
        let line_content = str_split line in
        andThen (py_getitem line_content (- 1)) (\<lambda>filter_path.
          if startswith line ''HPFILTER'' then
            (if useHeadphoneFilter st then
               andThen (load_filter st fs filter_path Filter) (\<lambda>a.
               andThen (attr (headphone_ir_blocks st)) (\<lambda>b.
               andThen (Filter_init a b (block_size st) None) (\<lambda>f.
               andThen (attr (hp_filter_fftw_plan st)) (\<lambda>plan.
               andThen (storeInFDomain f plan) (\<lambda>f'.
                 Inr (st\<lparr>headphone_filter := Some f'\<rparr>, None))))))
             else Inr (st, None))
          else
            andThen (py_getitem line_content 0) (\<lambda>first.
              if isdigit first then
                Inr (st, Some (from_filterValueList (map PStr (butlast line_content)),
                               filter_path, Filter))
              else if startswith line ''FILTER'' then
                Inr (st, Some (from_filterValueList (map PStr (butlast (tl line_content))),
                               filter_path, Filter))
              else if startswith line ''LATEREVERB'' then
                (if useSplittedFilters st then
                   Inr (st, Some (from_filterValueList (map PStr (butlast (tl line_content))),
                                  filter_path, LateReverbFilter))
                 else Inr (st, None))
              else if startswith line ''DIRECTIVITY'' then
                Inr (st, Some (from_filterValueList (map PStr (butlast (tl line_content))),
                               filter_path, Directivity))
              else Inl RuntimeError)))"

fun parse_filter_list ::
  "FilterStorage \<Rightarrow> (string \<rightharpoonup> ndarray) \<Rightarrow> string list \<Rightarrow>
   py_error + (FilterStorage \<times> (Pose \<times> string \<times> FilterType) list)" where
  "parse_filter_list st fs [] = Inr (st, [])"
| "parse_filter_list st fs (line # rest) =
     andThen (parse_filter_line st fs line) (\<lambda>(st', entry).
     andThen (parse_filter_list st' fs rest) (\<lambda>(st'', entries).
       Inr (st'', (case entry of None \<Rightarrow> entries | Some en \<Rightarrow> en # entries))))"

text \<open>The body of the loop of \<open>load_filters\<close>, for one parsed entry.\<close>

definition load_entry ::
  "(string \<Rightarrow> py_error + real) \<Rightarrow> (string \<rightharpoonup> ndarray) \<Rightarrow> FilterStorage \<Rightarrow>
   Pose \<times> string \<times> FilterType \<Rightarrow> py_error + FilterStorage" where
  "load_entry float_ctor fs st entry =
     (case entry of (filter_pose, filter_path, filter_type) \<Rightarrow>
        if filter_type = Undefined then Inr st
        else if filter_type = Filter then
          andThen (load_filter st fs filter_path filter_type) (\<lambda>a.
          andThen (Filter_init a (ir_blocks st) (block_size st) None) (\<lambda>f.
          andThen (storeInFDomain f (filter_fftw_plan st)) (\<lambda>current_filter.
          andThen (py_floats float_ctor (orientation02 filter_pose)) (\<lambda>coords.
            Inr (st\<lparr>filter_dict := (filter_dict st)(create_key filter_pose \<mapsto> current_filter),
                    filter_arr := filter_arr st @ [coords]\<rparr>)))))
        else if filter_type = LateReverbFilter then
          andThen (load_filter st fs filter_path filter_type) (\<lambda>a.
          andThen (attr (late_ir_blocks st)) (\<lambda>b.
          andThen (Filter_init a b (block_size st) None) (\<lambda>f.
          andThen (attr (late_filter_fftw_plan st)) (\<lambda>plan.
          andThen (storeInFDomain f plan) (\<lambda>current_filter.
          andThen (py_floats float_ctor (orientation02 filter_pose)) (\<lambda>coords.
            Inr (st\<lparr>late_reverb_filter_dict :=
                       (late_reverb_filter_dict st)(create_key filter_pose \<mapsto> current_filter),
                    late_reverb_arr := late_reverb_arr st @ [coords]\<rparr>)))))))
        else
          andThen (load_filter st fs filter_path filter_type) (\<lambda>a.
          andThen (Filter_init a (dir_ir_blocks st) (block_size st) None) (\<lambda>f.
          andThen (storeInFDomain f (filter_fftw_plan st)) (\<lambda>current_filter.
          andThen (py_floats float_ctor (orientation02 filter_pose)) (\<lambda>coords.
            Inr (st\<lparr>directivity_dict :=
                       (directivity_dict st)(create_key filter_pose \<mapsto> current_filter),
                    directivity_arr := directivity_arr st @ [coords]\<rparr>))))))"

fun load_entries ::
  "(string \<Rightarrow> py_error + real) \<Rightarrow> (string \<rightharpoonup> ndarray) \<Rightarrow> FilterStorage \<Rightarrow>
   (Pose \<times> string \<times> FilterType) list \<Rightarrow> py_error + FilterStorage" where
  "load_entries float_ctor fs st [] = Inr st"
| "load_entries float_ctor fs st (entry # rest) =
     andThen (load_entry float_ctor fs st entry) (\<lambda>st'. load_entries float_ctor fs st' rest)"

definition load_filters ::
  "(string \<Rightarrow> py_error + real) \<Rightarrow> (string \<rightharpoonup> ndarray) \<Rightarrow> string list \<Rightarrow> FilterStorage \<Rightarrow>
   py_error + FilterStorage" where
  "load_filters float_ctor fs filter_list st =
     andThen (parse_filter_list st fs filter_list) (\<lambda>(st1, parsed_filter_list).
     andThen (load_entries float_ctor fs st1 parsed_filter_list) (\<lambda>st2.
     andThen (KDTree_build (filter_arr st2)) (\<lambda>t1.
     andThen (KDTree_build (late_reverb_arr st2)) (\<lambda>t2.
     andThen (KDTree_build (directivity_arr st2)) (\<lambda>t3.
       Inr (st2\<lparr>filter_tree := Some t1, late_reverb_tree := Some t2,
                directivity_tree := Some t3\<rparr>))))))"

text \<open>
  \<open>FilterStorage(irSize, block_size, filter_list_name, ...)\<close>.  \<open>files\<close> gives the lines
  of the text files, \<open>fs\<close> the decoded impulse-response files.
\<close>

definition py_floordiv :: "nat \<Rightarrow> nat \<Rightarrow> py_error + nat" where
  "py_floordiv a b = (if b = 0 then Inl ZeroDivisionError else Inr (a div b))"

definition zero_filter :: "nat \<Rightarrow> nat \<Rightarrow> nat \<Rightarrow> fft_plan \<Rightarrow> py_error + Filter" where
  "zero_filter n blocks blockSize plan =
     andThen (Filter_init (np_zeros2 n 2) blocks blockSize None) (\<lambda>f. storeInFDomain f plan)"

definition FilterStorage_init ::
  "(string \<Rightarrow> py_error + real) \<Rightarrow> (string \<rightharpoonup> ndarray) \<Rightarrow> (string \<rightharpoonup> string list) \<Rightarrow>
   nat \<Rightarrow> nat \<Rightarrow> string \<Rightarrow> bool \<Rightarrow> nat \<Rightarrow> bool \<Rightarrow> nat \<Rightarrow> nat \<Rightarrow> py_error + FilterStorage" where
  "FilterStorage_init float_ctor fs files irSize blockSize filter_list_name
       useHeadphone headphoneFilterSize useSplitted lateReverbSz directivitySz =
     andThen (py_floordiv irSize blockSize) (\<lambda>irBlocks.
     andThen (zero_filter irSize irBlocks blockSize
                \<lparr>plan_blocks = irBlocks, plan_block_size = blockSize\<rparr>) (\<lambda>defaultFilter.
     andThen (if useHeadphone then py_floordiv headphoneFilterSize blockSize else Inr 0) (\<lambda>hpBlocks.
     andThen (if useSplitted then py_floordiv lateReverbSz blockSize else Inr 0) (\<lambda>lateBlocks.
     andThen (if useSplitted
              then andThen (zero_filter lateReverbSz lateBlocks blockSize
                              \<lparr>plan_blocks = lateBlocks, plan_block_size = blockSize\<rparr>)
                     (\<lambda>f. Inr (Some f))
              else Inr None) (\<lambda>defaultLate.
     andThen (py_floordiv directivitySz blockSize) (\<lambda>dirBlocks.
     andThen (zero_filter directivitySz dirBlocks blockSize
                \<lparr>plan_blocks = dirBlocks, plan_block_size = blockSize\<rparr>) (\<lambda>defaultDir.
     andThen (case files filter_list_name of None \<Rightarrow> Inl RuntimeError | Some ls \<Rightarrow> Inr ls)
       (\<lambda>filter_list.
       load_filters float_ctor fs filter_list
         \<lparr> ir_size = irSize,
           ir_blocks = irBlocks,
           block_size = blockSize,
           filter_fftw_plan = \<lparr>plan_blocks = dirBlocks, plan_block_size = blockSize\<rparr>,
           default_filter = defaultFilter,
           crossFadeOut = cosine_square_window blockSize,
           crossFadeIn = rev (cosine_square_window blockSize),
           useHeadphoneFilter = useHeadphone,
           headPhoneFilterSize = (if useHeadphone then Some headphoneFilterSize else None),
           headphone_ir_blocks = (if useHeadphone then Some hpBlocks else None),
           hp_filter_fftw_plan =
             (if useHeadphone then Some \<lparr>plan_blocks = hpBlocks, plan_block_size = blockSize\<rparr>
              else None),
           useSplittedFilters = useSplitted,
           lateReverbSize = (if useSplitted then Some lateReverbSz else None),
           late_ir_blocks = (if useSplitted then Some lateBlocks else None),
           late_filter_fftw_plan =
             (if useSplitted then Some \<lparr>plan_blocks = lateBlocks, plan_block_size = blockSize\<rparr>
              else None),
           default_late_reverb_filter = defaultLate,
           directivitySize = directivitySz,
           dir_ir_blocks = dirBlocks,
           default_directivity_filter = defaultDir,
           headphone_filter = None,
           filter_dict = Map.empty,
           late_reverb_filter_dict = Map.empty,
           directivity_dict = Map.empty,
           filter_arr = [],
           late_reverb_arr = [],
           directivity_arr = [],
           filter_tree = None,
           late_reverb_tree = None,
           directivity_tree = None \<rparr>))))))))"

text \<open>
  \<open>get_filter\<close> returns the filter; the model returns, before it, what the call logs
  (the text before the key).
\<close>

definition get_filter ::
  "(string \<Rightarrow> py_error + real) \<Rightarrow> FilterStorage \<Rightarrow> Pose \<Rightarrow> py_error + (string list \<times> Filter)" where
  "get_filter float_ctor st pose =
     andThen (py_floats float_ctor (orientation02 pose)) (\<lambda>find_me.
     andThen (attr (filter_tree st)) (\<lambda>tree.
     andThen (KDTree_query tree find_me) (\<lambda>i.
     andThen (py_getitem (filter_arr st) i) (\<lambda>row.
       let fvl = map PFloat row @ replicate 7 (PInt 0);
           newpose = from_filterValueList fvl;
           key = create_key newpose
       in (case filter_dict st key of
             Some result_filter \<Rightarrow> Inr ([''Filter found: key: ''], result_filter)
           | None \<Rightarrow> Inr ([''Filter not found: key: ''], default_filter st))))))"

definition get_headphone_filter :: "FilterStorage \<Rightarrow> py_error + Filter" where
  "get_headphone_filter st =
     (case headphone_filter st of None \<Rightarrow> Inl RuntimeError | Some f \<Rightarrow> Inr f)"


section \<open>Element-wise operations of numpy on spectra\<close>

text \<open>
  Two-dimensional arrays of spectra are lists of rows.  An operand with one row, or with
  rows of one entry, is broadcast along that axis; other shapes that differ raise
  \<open>ValueError\<close>.  (For an array without rows the number of columns is not
  represented.)
\<close>

fun sequence_list :: "(py_error + 'a) list \<Rightarrow> py_error + 'a list" where
  "sequence_list [] = Inr []"
| "sequence_list (r # rs) =
     andThen r (\<lambda>x. andThen (sequence_list rs) (\<lambda>xs. Inr (x # xs)))"

definition bmul_row :: "complex list \<Rightarrow> complex list \<Rightarrow> py_error + complex list" where
  "bmul_row x y =
     (if length x = length y then Inr (map2 (*) x y)
      else if length x = 1 then Inr (map (\<lambda>b. hd x * b) y)
      else if length y = 1 then Inr (map (\<lambda>a. a * hd y) x)
      else Inl ValueError)"

definition np_multiply2 ::
  "complex list list \<Rightarrow> complex list list \<Rightarrow> py_error + complex list list" where
  "np_multiply2 a b =
     (if length a = length b then sequence_list (map2 bmul_row a b)
      else if length a = 1 then sequence_list (map (bmul_row (hd a)) b)
      else if length b = 1 then sequence_list (map (\<lambda>x. bmul_row x (hd b)) a)
      else Inl ValueError)"

definition np_scale2 :: "complex list list \<Rightarrow> real \<Rightarrow> complex list list" where
  "np_scale2 a s = map (map (\<lambda>z. z * complex_of_real s)) a"

text \<open>The value assigned to a slice of \<open>r\<close> rows and \<open>c\<close> columns.\<close>

definition broadcast_row :: "nat \<Rightarrow> complex list \<Rightarrow> py_error + complex list" where
  "broadcast_row c x =
     (if length x = c then Inr x
      else if length x = 1 then Inr (replicate c (hd x))
      else Inl ValueError)"

definition broadcast_to :: "nat \<Rightarrow> nat \<Rightarrow> complex list list \<Rightarrow> py_error + complex list list" where
  "broadcast_to r c src =
     (if length src = r then sequence_list (map (broadcast_row c) src)
      else if length src = 1 then andThen (broadcast_row c (hd src)) (\<lambda>x. Inr (replicate r x))
      else Inl ValueError)"

text \<open>\<open>np.sum(m, axis=0)\<close> of an array with \<open>c\<close> columns.\<close>

definition np_sum_axis0 :: "nat \<Rightarrow> complex list list \<Rightarrow> complex list" where
  "np_sum_axis0 c m = foldl (\<lambda>acc row. map2 (+) acc row) (replicate c 0) m"

text \<open>\<open>np.roll(m, 1, axis=0)\<close>: the last row becomes the first.\<close>

definition np_roll1 :: "'a list \<Rightarrow> 'a list" where
  "np_roll1 m = (if m = [] then [] else last m # butlast m)"

text \<open>
  A time-domain value that can be not-a-number (\<open>None\<close>): the crossfade windows
  hold such values for \<open>block_size = 1\<close>, and products and sums with them are
  not-a-number too.
\<close>

definition fmul :: "real \<Rightarrow> real option \<Rightarrow> real option" where
  "fmul v w = (case w of None \<Rightarrow> None | Some x \<Rightarrow> Some (v * x))"

definition fadd :: "real option \<Rightarrow> real option \<Rightarrow> real option" where
  "fadd a b = (case (a, b) of (Some x, Some y) \<Rightarrow> Some (x + y) | _ \<Rightarrow> None)"


section \<open>convolver.py: ConvolverFFTW\<close>

record ConvolverFFTW =
  IR_size :: nat
  block_size :: nat
  reverbSize :: nat
  late_IR_blocks :: nat
  useSplittedFilters :: bool
  IR_blocks :: nat
  late_early_transition :: nat
  crossFadeOut :: "real option list"
  crossFadeIn :: "real option list"
  buffer :: "real list"
  buffer2 :: "real list"
  TF_late_left_blocked :: "complex list list"
  TF_late_right_blocked :: "complex list list"
  TF_left_blocked :: "complex list list"
  TF_right_blocked :: "complex list list"
  TF_left_blocked_previous :: "complex list list"
  TF_right_blocked_previous :: "complex list list"
  FDL_left :: "complex list list"
  FDL_right :: "complex list list"
  resultLeftFreq :: "complex list"
  resultRightFreq :: "complex list"
  resultLeftFreqPrevious :: "complex list"
  resultRightFreqPrevious :: "complex list"
  outputLeft :: "real option list"
  outputRight :: "real option list"
  processCounter :: nat
  interpolate :: bool
  buildNewFilter :: bool
  processStereo :: bool

definition ConvolverFFTW_init ::
  "nat \<Rightarrow> nat \<Rightarrow> bool \<Rightarrow> bool \<Rightarrow> nat \<Rightarrow> py_error + ConvolverFFTW" where
  "ConvolverFFTW_init ir_sz blockSize process_stereo useSplitted lateReverbSz =
     andThen (if useSplitted then py_floordiv lateReverbSz blockSize else Inr 0) (\<lambda>lateBlocks.
     let irSize = (if useSplitted then ir_sz + lateReverbSz else ir_sz) in
     andThen (py_floordiv irSize blockSize) (\<lambda>irBlocks.
       Inr \<lparr> IR_size = irSize,
             block_size = blockSize,
             reverbSize = lateReverbSz,
             late_IR_blocks = lateBlocks,
             useSplittedFilters = useSplitted,
             IR_blocks = irBlocks,
             late_early_transition = irBlocks - lateBlocks,
             crossFadeOut = cosine_square_window blockSize,
             crossFadeIn = rev (cosine_square_window blockSize),
             buffer = replicate (blockSize * 2) 0,
             buffer2 = replicate (blockSize * 2) 0,
             TF_late_left_blocked = czeros lateBlocks (blockSize + 1),
             TF_late_right_blocked = czeros lateBlocks (blockSize + 1),
             TF_left_blocked = czeros irBlocks (blockSize + 1),
             TF_right_blocked = czeros irBlocks (blockSize + 1),
             TF_left_blocked_previous = czeros irBlocks (blockSize + 1),
             TF_right_blocked_previous = czeros irBlocks (blockSize + 1),
             FDL_left = czeros irBlocks (blockSize + 1),
             FDL_right = czeros irBlocks (blockSize + 1),
             resultLeftFreq = replicate (blockSize + 1) 0,
             resultRightFreq = replicate (blockSize + 1) 0,
             resultLeftFreqPrevious = replicate (blockSize + 1) 0,
             resultRightFreqPrevious = replicate (blockSize + 1) 0,
             outputLeft = replicate blockSize (Some 0),
             outputRight = replicate blockSize (Some 0),
             processCounter = 0,
             interpolate = False,
             buildNewFilter = False,
             processStereo = process_stereo \<rparr>))"

definition buildFilters :: "ConvolverFFTW \<Rightarrow> py_error + ConvolverFFTW" where
  "buildFilters c =
     (if useSplittedFilters c \<and> buildNewFilter c then
        andThen (broadcast_to (length (TF_left_blocked c) - late_early_transition c)
                   (block_size c + 1) (TF_late_left_blocked c)) (\<lambda>lateL.
        andThen (broadcast_to (length (TF_right_blocked c) - late_early_transition c)
                   (block_size c + 1) (TF_late_right_blocked c)) (\<lambda>lateR.
          Inr (c\<lparr> TF_left_blocked := take (late_early_transition c) (TF_left_blocked c) @ lateL,
                  TF_right_blocked := take (late_early_transition c) (TF_right_blocked c) @ lateR,
                  buildNewFilter := False \<rparr>)))
      else Inr c)"

text \<open>
  The argument \<open>dir_filter\<close> of \<open>setIR\<close> is a filter, or the integer that the
  signature gives as its default.
\<close>

datatype filter_arg = PyInt int | PyFilter Filter

definition arg_getFilterFD ::
  "filter_arg \<Rightarrow> py_error + (string list \<times> complex list list option \<times> complex list list option)" where
  "arg_getFilterFD a = (case a of PyInt i \<Rightarrow> Inl AttributeError | PyFilter f \<Rightarrow> Inr (getFilterFD f))"

definition array_of :: "complex list list option \<Rightarrow> py_error + complex list list" where
  "array_of a = (case a of None \<Rightarrow> Inl TypeError | Some m \<Rightarrow> Inr m)"

definition setIR ::
  "ConvolverFFTW \<Rightarrow> Filter \<Rightarrow> bool \<Rightarrow> real \<Rightarrow> filter_arg \<Rightarrow> py_error + ConvolverFFTW" where
  "setIR c flt do_interpolation distance dir_filter =
     (case getFilterFD flt of (log1, left, right) \<Rightarrow>
      andThen (arg_getFilterFD dir_filter) (\<lambda>(log2, dir_left, dir_right).
      andThen (array_of left) (\<lambda>l.
      andThen (array_of dir_left) (\<lambda>dl.
      andThen (np_multiply2 l dl) (\<lambda>pl.
      andThen (broadcast_to (min (late_early_transition c) (length (TF_left_blocked c)))
                 (block_size c + 1) (np_scale2 pl distance)) (\<lambda>newL.
      andThen (array_of right) (\<lambda>r.
      andThen (array_of dir_right) (\<lambda>dr.
      andThen (np_multiply2 r dr) (\<lambda>pr.
      andThen (broadcast_to (min (late_early_transition c) (length (TF_right_blocked c)))
                 (block_size c + 1) (np_scale2 pr distance)) (\<lambda>newR.
        Inr (c\<lparr> TF_left_blocked := newL @ drop (late_early_transition c) (TF_left_blocked c),
                TF_right_blocked := newR @ drop (late_early_transition c) (TF_right_blocked c),
                interpolate := do_interpolation,
                buildNewFilter := True \<rparr>)))))))))))"


definition saveOldFilters :: "ConvolverFFTW \<Rightarrow> ConvolverFFTW" where
  "saveOldFilters c =
     c\<lparr> TF_left_blocked_previous := TF_left_blocked c,
        TF_right_blocked_previous := TF_right_blocked c \<rparr>"

text \<open>
  The value written to a one-dimensional slice of \<open>n\<close> samples: an array of \<open>n\<close>
  samples, or one sample that is broadcast.
\<close>

definition assign_vec :: "nat \<Rightarrow> real list \<Rightarrow> py_error + real list" where
  "assign_vec n src =
     (if length src = n then Inr src
      else if length src = 1 then Inr (replicate n (hd src))
      else Inl ValueError)"

definition block_size_of :: "ndarray \<Rightarrow> nat" where
  "block_size_of b = (case b of Arr1 v \<Rightarrow> length v | Arr2 rows k \<Rightarrow> length rows * k)"

text \<open>
  The block a mono convolver writes into its buffer.  A block shorter than
  \<open>block_size\<close> is filled up by concatenating, along axis 1, zeros of shape
  \<open>(1, block_size - size)\<close>: a one-dimensional block is refused there, a block of one
  row is extended.
\<close>

definition mono_samples :: "nat \<Rightarrow> ndarray \<Rightarrow> py_error + real list" where
  "mono_samples n b =
     (if block_size_of b < n then
        (case b of
           Arr1 v \<Rightarrow> Inl ValueError
         | Arr2 rows k \<Rightarrow>
             if length rows = 1 then Inr (hd rows @ replicate (n - block_size_of b) 0)
             else Inl ValueError)
      else
        (case b of
           Arr1 v \<Rightarrow> assign_vec n v
         | Arr2 rows k \<Rightarrow> if length rows = 1 then assign_vec n (hd rows) else Inl ValueError))"

definition store_spectrum ::
  "complex list \<Rightarrow> complex list list \<Rightarrow> py_error + complex list list" where
  "store_spectrum s fdl = (if fdl = [] then Inl IndexError else Inr (s # tl fdl))"

definition fill_buffer_mono :: "ConvolverFFTW \<Rightarrow> ndarray \<Rightarrow> py_error + ConvolverFFTW" where
  "fill_buffer_mono c b =
     andThen (mono_samples (block_size c) b) (\<lambda>samples.
       let c1 = (if processCounter c = 0
                 then c\<lparr> buffer := take (block_size c) (buffer c) @ samples \<rparr>
                 else c\<lparr> buffer := drop (block_size c) (buffer c) @ samples,
                         FDL_left := np_roll1 (FDL_left c),
                         FDL_right := np_roll1 (FDL_right c) \<rparr>);
           s = rfft (buffer c1)
       in
       andThen (store_spectrum s (FDL_left c1)) (\<lambda>fl.
       andThen (store_spectrum s (FDL_right c1)) (\<lambda>fr.
         Inr (c1\<lparr> FDL_left := fl, FDL_right := fr \<rparr>))))"

text \<open>
  The two columns a stereo convolver writes into its buffers.  A block with fewer than
  \<open>block_size\<close> entries is extended, along axis 0, by \<open>block_size - size\<close> rows of
  two zeros.
\<close>

definition stereo_block :: "nat \<Rightarrow> ndarray \<Rightarrow> py_error + ndarray" where
  "stereo_block n b =
     (if block_size_of b < n then np_concatenate0 b (np_zeros2 (n - block_size_of b) 2)
      else Inr b)"

definition fill_buffer_stereo :: "ConvolverFFTW \<Rightarrow> ndarray \<Rightarrow> py_error + ConvolverFFTW" where
  "fill_buffer_stereo c b =
     andThen (stereo_block (block_size c) b) (\<lambda>blk.
     andThen (np_column blk 0) (\<lambda>col0.
     andThen (assign_vec (block_size c) col0) (\<lambda>left.
     andThen (np_column blk 1) (\<lambda>col1.
     andThen (assign_vec (block_size c) col1) (\<lambda>right.
       let c1 = (if processCounter c = 0
                 then c\<lparr> buffer := take (block_size c) (buffer c) @ left,
                         buffer2 := take (block_size c) (buffer2 c) @ right \<rparr>
                 else c\<lparr> buffer := drop (block_size c) (buffer c) @ left,
                         buffer2 := drop (block_size c) (buffer2 c) @ right,
                         FDL_left := np_roll1 (FDL_left c),
                         FDL_right := np_roll1 (FDL_right c) \<rparr>)
       in
       andThen (store_spectrum (rfft (buffer c1)) (FDL_left c1)) (\<lambda>fl.
       andThen (store_spectrum (rfft (buffer2 c1)) (FDL_right c1)) (\<lambda>fr.
         Inr (c1\<lparr> FDL_left := fl, FDL_right := fr \<rparr>))))))))"

text \<open>
  Multiplication with the filter blocks and accumulation:
  \<open>np.sum(np.multiply(TF, FDL), axis=0)\<close>, written to a result array of
  \<open>block_size + 1\<close> bins.
\<close>

definition multiply_accumulate ::
  "nat \<Rightarrow> complex list list \<Rightarrow> complex list list \<Rightarrow> py_error + complex list" where
  "multiply_accumulate n tf fdl =
     andThen (np_multiply2 tf fdl) (\<lambda>prod. broadcast_row (n + 1) (np_sum_axis0 (n + 1) prod))"

text \<open>\<open>plan()[block_size : block_size * 2]\<close> of an inverse plan on a result array.\<close>

definition second_half :: "nat \<Rightarrow> complex list \<Rightarrow> real list" where
  "second_half n Y = take n (drop n (irfft Y))"

definition crossfade :: "real list \<Rightarrow> real option list \<Rightarrow> real list \<Rightarrow> real option list \<Rightarrow> real option list" where
  "crossfade new w_in old w_out = map2 fadd (map2 fmul new w_in) (map2 fmul old w_out)"

definition process ::
  "ConvolverFFTW \<Rightarrow> ndarray \<Rightarrow> py_error + (ConvolverFFTW \<times> real option list \<times> real option list)" where
  "process c0 b =
     andThen (if \<not> processStereo c0 then fill_buffer_mono c0 b else fill_buffer_stereo c0 b) (\<lambda>c1.
     andThen (buildFilters (saveOldFilters c1)) (\<lambda>c2.
     andThen (multiply_accumulate (block_size c2) (TF_left_blocked c2) (FDL_left c2)) (\<lambda>yl.
     andThen (multiply_accumulate (block_size c2) (TF_right_blocked c2) (FDL_right c2)) (\<lambda>yr.
       let c3 = c2\<lparr> resultLeftFreq := yl, resultRightFreq := yr,
                    outputLeft := map Some (second_half (block_size c2) yl),
                    outputRight := map Some (second_half (block_size c2) yr) \<rparr>
       in
       andThen
         (if interpolate c3 then
            andThen (multiply_accumulate (block_size c3)
                       (TF_left_blocked_previous c3) (FDL_left c3)) (\<lambda>pl.
            andThen (multiply_accumulate (block_size c3)
                       (TF_right_blocked_previous c3) (FDL_right c3)) (\<lambda>pr.
              Inr (c3\<lparr> resultLeftFreqPrevious := pl, resultRightFreqPrevious := pr,
                      outputLeft := crossfade (second_half (block_size c3) yl) (crossFadeIn c3)
                                      (second_half (block_size c3) pl) (crossFadeOut c3),
                      outputRight := crossfade (second_half (block_size c3) yr) (crossFadeIn c3)
                                       (second_half (block_size c3) pr) (crossFadeOut c3) \<rparr>)))
          else Inr c3) (\<lambda>c4.
         let c5 = c4\<lparr> processCounter := processCounter c4 + 1, interpolate := False \<rparr>
         in Inr (c5, outputLeft c5, outputRight c5))))))"


section \<open>Shapes of the convolver state and the sum the specification states\<close>

text \<open>An array of \<open>r\<close> rows of \<open>c\<close> entries.\<close>

definition rect :: "nat \<Rightarrow> nat \<Rightarrow> 'a list list \<Rightarrow> bool" where
  "rect r c m = (length m = r \<and> list_all (\<lambda>row. length row = c) m)"

text \<open>
  The shapes \<open>__init__\<close> gives the arrays of a convolver with at least one sample per
  block and at least one filter block; no method changes them.
\<close>

definition conv_wf :: "ConvolverFFTW \<Rightarrow> bool" where
  "conv_wf c =
     (0 < block_size c \<and> 0 < IR_blocks c
      \<and> late_early_transition c + late_IR_blocks c = IR_blocks c
      \<and> length (buffer c) = 2 * block_size c
      \<and> length (buffer2 c) = 2 * block_size c
      \<and> rect (late_IR_blocks c) (block_size c + 1) (TF_late_left_blocked c)
      \<and> rect (late_IR_blocks c) (block_size c + 1) (TF_late_right_blocked c)
      \<and> rect (IR_blocks c) (block_size c + 1) (TF_left_blocked c)
      \<and> rect (IR_blocks c) (block_size c + 1) (TF_right_blocked c)
      \<and> rect (IR_blocks c) (block_size c + 1) (TF_left_blocked_previous c)
      \<and> rect (IR_blocks c) (block_size c + 1) (TF_right_blocked_previous c)
      \<and> rect (IR_blocks c) (block_size c + 1) (FDL_left c)
      \<and> rect (IR_blocks c) (block_size c + 1) (FDL_right c)
      \<and> length (crossFadeIn c) = block_size c
      \<and> length (crossFadeOut c) = block_size c)"

text \<open>
  An input block of the shape \<open>process\<close> is specified for: \<open>block_size\<close> samples for
  a mono convolver, \<open>block_size\<close> rows of two samples for a stereo convolver.
\<close>

definition block_fits :: "ConvolverFFTW \<Rightarrow> ndarray \<Rightarrow> bool" where
  "block_fits c b =
     (case b of
        Arr1 v \<Rightarrow> \<not> processStereo c \<and> length v = block_size c
      | Arr2 rows k \<Rightarrow> processStereo c \<and> k = 2 \<and> rect (block_size c) 2 rows)"

text \<open>The samples of the block for the left and for the right input buffer.\<close>

definition left_samples :: "ndarray \<Rightarrow> real list" where
  "left_samples b = (case b of Arr1 v \<Rightarrow> v | Arr2 rows k \<Rightarrow> map (\<lambda>r. r ! 0) rows)"

definition right_samples :: "ndarray \<Rightarrow> real list" where
  "right_samples b = (case b of Arr1 v \<Rightarrow> v | Arr2 rows k \<Rightarrow> map (\<lambda>r. r ! 1) rows)"

text \<open>
  The sum as the specification writes it: bin \<open>k\<close> of
  \<open>\<Sum>\<^bsub>i = 0..T-1\<^esub> tf[i] \<odot> fdl[i]\<close>, for the \<open>n + 1\<close> bins.
\<close>

definition spec_partition_sum :: "nat \<Rightarrow> complex list list \<Rightarrow> complex list list \<Rightarrow> complex list" where
  "spec_partition_sum n tf fdl =
     map (\<lambda>k. sum_list (map (\<lambda>i. tf ! i ! k * fdl ! i ! k) [0..<length tf])) [0..<n + 1]"

text \<open>The last \<open>n\<close> samples of the inverse transform of a spectrum.\<close>

definition last_samples :: "nat \<Rightarrow> complex list \<Rightarrow> real list" where
  "last_samples n Y = drop (length (irfft Y) - n) (irfft Y)"


section \<open>application.py: BinSim\<close>

text \<open>
  The truth value of a configuration value in a condition, and the number it stands for
  as a factor of \<open>np.multiply\<close>.
\<close>

definition py_truthy :: "config_value \<Rightarrow> bool" where
  "py_truthy v =
     (case v of
        VStr s \<Rightarrow> s \<noteq> []
      | VInt i \<Rightarrow> i \<noteq> 0
      | VFloat x \<Rightarrow> x \<noteq> 0
      | VBool b \<Rightarrow> b
      | VNone \<Rightarrow> False)"

definition py_number :: "config_value \<Rightarrow> py_error + real" where
  "py_number v =
     (case v of
        VStr s \<Rightarrow> Inl TypeError
      | VInt i \<Rightarrow> Inr (real_of_int i)
      | VFloat x \<Rightarrow> Inr x
      | VBool b \<Rightarrow> Inr (if b then 1 else 0)
      | VNone \<Rightarrow> Inl TypeError)"

text \<open>\<open>int(x)\<close> of a float: the fraction is cut off.\<close>

definition py_int_of_float :: "real \<Rightarrow> int" where
  "py_int_of_float x = (if 0 \<le> x then \<lfloor>x\<rfloor> else \<lceil>x\<rceil>)"

record BinSim =
  config :: BinSimConfig
  inChannels :: nat
  outChannels :: nat
  maxChannels :: int
  blockSize :: nat
  result :: "real option list list"
  block :: "real list"
  convolverHP :: "ConvolverFFTW option"
  convolvers :: "ConvolverFFTW list"
  filterStorage :: FilterStorage
  poseParser :: InlinePoseParser
  engine_log :: "string list"

text \<open>
  The two output blocks as the rows of \<open>result\<close>
  (\<open>result[:, 0], result[:, 1] = ...\<close>, both columns of \<open>blockSize\<close> entries).
\<close>

definition assign_opt :: "nat \<Rightarrow> real option list \<Rightarrow> py_error + real option list" where
  "assign_opt n src =
     (if length src = n then Inr src
      else if length src = 1 then Inr (replicate n (hd src))
      else Inl ValueError)"

definition set_result_columns ::
  "nat \<Rightarrow> real option list \<Rightarrow> real option list \<Rightarrow> py_error + real option list list" where
  "set_result_columns n outL outR =
     andThen (assign_opt n outL) (\<lambda>l.
     andThen (assign_opt n outR) (\<lambda>r. Inr (map2 (\<lambda>a b. [a, b]) l r)))"

text \<open>
  The stereo block handed to the headphone convolver.  The transforms of the model are
  exact: a block with a not-a-number sample has no image, and the model ends there with
  \<open>NotFinite\<close> (no exception of the source).
\<close>

definition finite_rows :: "real option list list \<Rightarrow> py_error + ndarray" where
  "finite_rows rows =
     (if list_all (list_all (\<lambda>v. v \<noteq> None)) rows
      then Inr (Arr2 (map (map the) rows) 2)
      else Inl NotFinite)"

definition clipping :: "real option list list \<Rightarrow> py_error + bool" where
  "clipping rows =
     (if concat rows = [] then Inl ValueError
      else Inr (list_all (\<lambda>v. v \<noteq> None) (concat rows)
                \<and> list_ex (\<lambda>v. 1 < \<bar>the v\<bar>) (concat rows)))"

definition process_block ::
  "(string \<Rightarrow> py_error + real) \<Rightarrow> BinSim \<Rightarrow> int \<Rightarrow> py_error + BinSim" where
  "process_block float_ctor e convChannel =
     andThen (is_filter_update_necessary (poseParser e) convChannel) (\<lambda>necessary.
     andThen
       (if necessary then
          andThen (get_current_values (poseParser e) convChannel) (\<lambda>(pp, filterValueList).
          andThen (get_filter float_ctor (filterStorage e)
                     (from_filterValueList (map PInt filterValueList))) (\<lambda>(lg, flt).
          andThen (py_getitem (convolvers e) convChannel) (\<lambda>conv.
          andThen (config_get (config e) ''enableCrossfading'') (\<lambda>xf.
          andThen (setIR conv flt (py_truthy xf) 1 (PyInt 1)) (\<lambda>conv'.
          andThen (py_setitem (convolvers e) convChannel conv') (\<lambda>cs.
            Inr (e\<lparr>poseParser := pp, convolvers := cs,
                    engine_log := engine_log e @ lg\<rparr>)))))))
        else Inr e) (\<lambda>e1.
     andThen (py_getitem (convolvers e1) convChannel) (\<lambda>conv.
     andThen (process conv (Arr1 (block e1))) (\<lambda>(conv', outL, outR).
     andThen (py_setitem (convolvers e1) convChannel conv') (\<lambda>cs.
     andThen (set_result_columns (blockSize e1) outL outR) (\<lambda>res.
     let e2 = e1\<lparr>convolvers := cs, result := res\<rparr> in
     andThen (config_get (config e2) ''useHeadphoneFilter'') (\<lambda>useHP.
     andThen
       (if py_truthy useHP then
          andThen (attr (convolverHP e2)) (\<lambda>hp.
          andThen (finite_rows (result e2)) (\<lambda>stereo.
          andThen (process hp stereo) (\<lambda>(hp', hpL, hpR).
          andThen (set_result_columns (blockSize e2) hpL hpR) (\<lambda>res'.
            Inr (e2\<lparr>convolverHP := Some hp', result := res'\<rparr>)))))
        else Inr e2) (\<lambda>e3.
     andThen (config_get (config e3) ''loudnessFactor'') (\<lambda>lf.
     andThen (py_number lf) (\<lambda>gain.
     let e4 = e3\<lparr>result := map (map (\<lambda>v. fmul gain v)) (result e3)\<rparr> in
     andThen (clipping (result e4)) (\<lambda>clipped.
       Inr (if clipped
            then e4\<lparr>engine_log := engine_log e4 @ [''Clipping occurred: Adjust loudnessFactor!'']\<rparr>
            else e4))))))))))))"

text \<open>
  What the socket delivers at one turn of the loop of \<open>run_server\<close>: nothing (the
  non-blocking \<open>recv\<close> raises \<open>ZMQError\<close>), or a message, given as its
  \<open>float32\<close> values, together with whether sending the reply succeeds (a failing
  \<open>send\<close> raises \<open>ZMQError\<close>).  \<open>ZMQError\<close> is the one exception the loop catches;
  any other ends it.
\<close>

datatype transport_event = NoMessage | Request "real list" bool

definition np_reshape2 :: "real list \<Rightarrow> nat \<Rightarrow> nat \<Rightarrow> py_error + ndarray" where
  "np_reshape2 v r k = andThen (np_reshape v r k) (\<lambda>rows. Inr (Arr2 rows k))"

definition np_item :: "ndarray \<Rightarrow> nat \<Rightarrow> nat \<Rightarrow> py_error + real" where
  "np_item a i j =
     (case a of
        Arr1 v \<Rightarrow> Inl IndexError
      | Arr2 rows k \<Rightarrow> if i < length rows \<and> j < k then Inr (rows ! i ! j) else Inl IndexError)"

definition serve_request ::
  "(string \<Rightarrow> py_error + real) \<Rightarrow> BinSim \<Rightarrow> real list \<Rightarrow> py_error + BinSim" where
  "serve_request float_ctor e payload =
     andThen (np_reshape2 payload (blockSize e) (inChannels e)) (\<lambda>stereo_audio_in.
     andThen (np_column stereo_audio_in 0) (\<lambda>col0.
     andThen (assign_vec (length (block e)) col0) (\<lambda>blk.
     let e1 = e\<lparr>block := blk\<rparr> in
     andThen (np_item stereo_audio_in 0 1) (\<lambda>ch.
     andThen (np_item stereo_audio_in 1 1) (\<lambda>az.
     andThen (np_item stereo_audio_in 2 1) (\<lambda>el.
     andThen (parse_pose_input (poseParser e1) (py_int_of_float ch)
                (py_int_of_float az) (py_int_of_float el)) (\<lambda>pp.
       process_block float_ctor (e1\<lparr>poseParser := pp\<rparr>) (py_int_of_float ch))))))))"

text \<open>
  \<open>run_server\<close> over the events the socket delivers, with the replies sent so far.  The
  loop of the source has no exit: the model returns \<open>Inr\<close> when the listed events are
  used up and the loop is still running, \<open>Inl\<close> when an exception ended it.
\<close>

fun run_server ::
  "(string \<Rightarrow> py_error + real) \<Rightarrow> BinSim \<Rightarrow> transport_event list \<Rightarrow>
   py_error + (BinSim \<times> real option list list list)" where
  "run_server float_ctor e [] = Inr (e, [])"
| "run_server float_ctor e (NoMessage # evs) = run_server float_ctor e evs"
| "run_server float_ctor e (Request payload sent # evs) =
     andThen (serve_request float_ctor e payload) (\<lambda>e'.
     andThen (run_server float_ctor e' evs) (\<lambda>(e'', replies).
       Inr (e'', (if sent then [result e'] else []) @ replies)))"


section \<open>Example data\<close>

text \<open>
  The conversion \<open>float\<close> of the examples: it reads the strings of decimal digits and
  raises \<open>ValueError\<close> on every other string.
\<close>

fun digits_value :: "string \<Rightarrow> nat \<Rightarrow> nat" where
  "digits_value [] acc = acc"
| "digits_value (c # cs) acc = digits_value cs (acc * 10 + (of_char c - 48))"

definition float_of_digits :: "string \<Rightarrow> py_error + real" where
  "float_of_digits s = (if isdigit s then Inr (real (digits_value s 0)) else Inl ValueError)"

text \<open>
  The sound files of the examples, as \<open>sf.read\<close> returns them: four stereo responses
  of three frames, a mono response of three frames, and a stereo response of one frame.
\<close>

definition example_wav_files :: "string \<rightharpoonup> ndarray" where
  "example_wav_files =
     [''a.wav'' \<mapsto> Arr2 [[1, 1], [0, 0], [0, 0]] 2,
      ''b.wav'' \<mapsto> Arr2 [[2, 2], [0, 0], [0, 0]] 2,
      ''c.wav'' \<mapsto> Arr2 [[3, 3], [0, 0], [0, 0]] 2,
      ''l.wav'' \<mapsto> Arr2 [[1, 1], [0, 0], [0, 0]] 2,
      ''d.wav'' \<mapsto> Arr1 [1, 0, 0],
      ''s.wav'' \<mapsto> Arr2 [[1, 1]] 2]"

text \<open>
  The prepared filter of one block of three frames whose channels are the impulses
  \<open>[a, 0, 0]\<close> and \<open>[b, 0, 0]\<close>: the spectra are constant.
\<close>

definition prepared_delta :: "real \<Rightarrow> real \<Rightarrow> Filter" where
  "prepared_delta a b =
     \<lparr> Filter.ir_blocks = 1, Filter.block_size = 3, TF_blocks = 1, TF_block_size = 4,
       IR_left_blocked = None, IR_right_blocked = None,
       filename = None, fd_available = True,
       Filter.TF_left_blocked =
         Some [[complex_of_real a, complex_of_real a, complex_of_real a, complex_of_real a]],
       Filter.TF_right_blocked =
         Some [[complex_of_real b, complex_of_real b, complex_of_real b, complex_of_real b]] \<rparr>"

text \<open>
  The key under which \<open>load_filters\<close> stores the filter of a line whose first value
  is the token \<open>az\<close> and whose other eight values are the token \<open>0\<close>.
\<close>

definition example_key :: "string \<Rightarrow> pyval list" where
  "example_key az =
     [PStr az, PStr ''0'', PStr ''0'', PStr ''0'', PStr ''0'', PStr ''0'', PStr ''0'',
      PStr ''0'', PStr ''0'']"

text \<open>
  The filter list of the examples: directional filters at the azimuths 0, 30 and 60, a
  late-reverb filter and a directivity filter.
\<close>

definition example_line1 :: string where
  "example_line1 = ''FILTER 0 0 0 0 0 0 0 0 0 a.wav'' @ [CHR 0x0A]"

definition example_line2 :: string where
  "example_line2 = ''FILTER 30 0 0 0 0 0 0 0 0 b.wav'' @ [CHR 0x0A]"

definition example_line3 :: string where
  "example_line3 = ''FILTER 60 0 0 0 0 0 0 0 0 c.wav'' @ [CHR 0x0A]"

definition example_line4 :: string where
  "example_line4 = ''LATEREVERB 0 0 0 0 0 0 0 0 0 l.wav'' @ [CHR 0x0A]"

definition example_line5 :: string where
  "example_line5 = ''DIRECTIVITY 0 0 0 0 0 0 0 0 0 d.wav'' @ [CHR 0x0A]"

definition example_filter_lines :: "string list" where
  "example_filter_lines = [example_line1, example_line2, example_line3, example_line4, example_line5]"

text \<open>
  The filter storage of the examples: three frames per filter, blocks of three frames,
  no headphone filter, split filters with a late reverb of three frames.
\<close>

definition example_storage_init :: "py_error + FilterStorage" where
  "example_storage_init =
     FilterStorage_init float_of_digits example_wav_files
       [''filters.txt'' \<mapsto> example_filter_lines] 3 3 ''filters.txt'' False 0 True 3 3"

text \<open>The pose the engine builds from the values of a channel.\<close>

definition example_pose :: "int \<Rightarrow> int \<Rightarrow> Pose" where
  "example_pose az el =
     from_filterValueList (map PInt [az, el, 0, 0, 0, 0, 0, 0, 0])"

text \<open>The engine of the examples: two channels, blocks of three frames.\<close>

definition example_config :: BinSimConfig where
  "example_config =
     BinSimConfig_init\<lparr>configurationDict :=
       (configurationDict BinSimConfig_init)
         (''blockSize'' \<mapsto> VInt 3, ''filterSize'' \<mapsto> VInt 3,
          ''filterList'' \<mapsto> VStr ''filters.txt'', ''maxChannels'' \<mapsto> VInt 2)\<rparr>"

definition example_engine :: "FilterStorage \<Rightarrow> ConvolverFFTW \<Rightarrow> BinSim" where
  "example_engine st c =
     \<lparr> config = example_config,
       inChannels = 2,
       outChannels = 2,
       maxChannels = 2,
       blockSize = 3,
       result = replicate 3 [Some 0, Some 0],
       block = [0, 0, 0],
       convolverHP = None,
       convolvers = [c, c],
       filterStorage = st,
       poseParser = InlinePoseParser_init 2,
       engine_log = [] \<rparr>"



section \<open>Properties of the pose parser\<close>

lemma py_index_in_range:
  "0 \<le> i \<Longrightarrow> i < int (length xs) \<Longrightarrow> py_index xs i = Inr (nat i)"
  by (simp add: py_index_def)

lemma py_getitem_in_range:
  "0 \<le> i \<Longrightarrow> i < int (length xs) \<Longrightarrow> py_getitem xs i = Inr (xs ! nat i)"
  by (simp add: py_getitem_def py_index_in_range)

lemma py_setitem_in_range:
  "0 \<le> i \<Longrightarrow> i < int (length xs) \<Longrightarrow> py_setitem xs i v = Inr (xs[nat i := v])"
  by (simp add: py_setitem_def py_index_in_range)

lemma init_parser_channels:
  "parser_channels (InlinePoseParser_init m) (nat m)"
  by (simp add: parser_channels_def InlinePoseParser_init_def)

lemma parse_pose_input_in_range:
  assumes "parser_channels p m" "0 \<le> ch" "ch < int m"
  shows "parse_pose_input p ch az el =
           Inr (if [az, el] \<noteq> take 2 (valueList p ! nat ch)
                then p\<lparr>filtersUpdated := (filtersUpdated p)[nat ch := True],
                       valueList := (valueList p)[nat ch := [az, el, 0, 0, 0, 0, 0, 0, 0]]\<rparr>
                else p)"
  using assms
  by (simp add: parse_pose_input_def parser_channels_def py_getitem_in_range
      py_setitem_in_range defaultValue_def Let_def numeral_2_eq_2)

lemma parse_pose_input_channels:
  assumes "parser_channels p m" "0 \<le> ch" "ch < int m"
    and "parse_pose_input p ch az el = Inr p'"
  shows "parser_channels p' m"
  using assms(4) assms(1) unfolding parse_pose_input_in_range[OF assms(1-3)]
  by (auto simp: parser_channels_def split: if_splits)

lemma get_current_values_in_range:
  assumes "parser_channels p m" "0 \<le> ch" "ch < int m"
  shows "get_current_values p ch =
           Inr (p\<lparr>filtersUpdated := (filtersUpdated p)[nat ch := False]\<rparr>, valueList p ! nat ch)"
  using assms
  by (simp add: get_current_values_def parser_channels_def py_getitem_in_range
      py_setitem_in_range)

lemma parse_pose_inputs_keep_clean:
  assumes "parser_channels p m" "0 \<le> ch" "ch < int m"
    and "list_all (update_in_range m) us"
    and "list_all (same_pose_on ch (valueList p ! nat ch)) us"
    and "filtersUpdated p ! nat ch = False"
  shows "\<exists>p'. parse_pose_inputs p us = Inr p' \<and> parser_channels p' m
           \<and> filtersUpdated p' ! nat ch = False
           \<and> valueList p' ! nat ch = valueList p ! nat ch"
  using assms
proof (induction us arbitrary: p)
  case Nil
  then show ?case by simp
next
  case (Cons u us)
  obtain c a e where u: "u = (c, a, e)" by (cases u) auto
  from Cons.prems(4) u have c: "0 \<le> c" "c < int m"
    by (simp_all add: update_in_range_def)
  let ?q = "if [a, e] \<noteq> take 2 (valueList p ! nat c)
            then p\<lparr>filtersUpdated := (filtersUpdated p)[nat c := True],
                   valueList := (valueList p)[nat c := [a, e, 0, 0, 0, 0, 0, 0, 0]]\<rparr>
            else p"
  have step: "parse_pose_input p c a e = Inr ?q"
    by (rule parse_pose_input_in_range[OF Cons.prems(1) c])
  have q_ch: "parser_channels ?q m"
    by (rule parse_pose_input_channels[OF Cons.prems(1) c step])
  have same: "c \<noteq> ch \<or> [a, e] = take 2 (valueList p ! nat ch)"
    using Cons.prems(5) u by (simp add: same_pose_on_def)
  have ne: "c \<noteq> ch \<Longrightarrow> nat c \<noteq> nat ch"
    using c Cons.prems(2) by auto
  have q_flag: "filtersUpdated ?q ! nat ch = False"
  proof (cases "c = ch")
    case True
    with same show ?thesis using Cons.prems(6) by simp
  next
    case False
    with ne show ?thesis using Cons.prems(6) by simp
  qed
  have q_val: "valueList ?q ! nat ch = valueList p ! nat ch"
  proof (cases "c = ch")
    case True
    with same show ?thesis by simp
  next
    case False
    with ne show ?thesis by simp
  qed
  have "\<exists>p'. parse_pose_inputs ?q us = Inr p' \<and> parser_channels p' m
           \<and> filtersUpdated p' ! nat ch = False
           \<and> valueList p' ! nat ch = valueList ?q ! nat ch"
    using Cons.prems(4,5) q_flag
    by (intro Cons.IH[OF q_ch Cons.prems(2,3)]) (simp_all only: q_val list.pred_inject)
  then show ?case
    unfolding u parse_pose_inputs.simps step q_val by simp
qed


text \<open>
  Claim C9.  For a parser built for \<open>maxChannels\<close> channels and a channel
  \<open>ch\<close> in \<open>[0, maxChannels)\<close>: the dirty flag starts true; in every state
  whose per-channel lists have \<open>maxChannels\<close> entries, \<open>parse_pose_input\<close>
  (update) changes the state exactly when \<open>(az, el)\<close> differs from the first two
  fields of the stored pose, and then sets the flag and stores \<open>(az, el)\<close> followed by
  seven zeros; \<open>get_current_values\<close> (consume) returns the stored pose and clears the
  flag; and after it the flag of \<open>ch\<close> stays false, and the pose stays stored, through
  every sequence of updates (on channels in range) whose updates of \<open>ch\<close> carry the
  stored \<open>(az, el)\<close>.
\<close>

theorem pose_dirty_semantics:
  assumes "0 \<le> ch" and "ch < nChannels"
    and "parser_channels p (nat nChannels)"
    and "list_all (update_in_range (nat nChannels)) us"
    and "list_all (same_pose_on ch (valueList p ! nat ch)) us"
  shows "is_filter_update_necessary (InlinePoseParser_init nChannels) ch = Inr True
       \<and> parse_pose_input p ch az el =
           Inr (if [az, el] \<noteq> take 2 (valueList p ! nat ch)
                then p\<lparr>filtersUpdated := (filtersUpdated p)[nat ch := True],
                       valueList := (valueList p)[nat ch := [az, el, 0, 0, 0, 0, 0, 0, 0]]\<rparr>
                else p)
       \<and> get_current_values p ch =
           Inr (p\<lparr>filtersUpdated := (filtersUpdated p)[nat ch := False]\<rparr>, valueList p ! nat ch)
       \<and> is_filter_update_necessary
             (p\<lparr>filtersUpdated := (filtersUpdated p)[nat ch := False]\<rparr>) ch = Inr False
       \<and> (\<exists>p'. parse_pose_inputs
                   (p\<lparr>filtersUpdated := (filtersUpdated p)[nat ch := False]\<rparr>) us = Inr p'
               \<and> is_filter_update_necessary p' ch = Inr False
               \<and> valueList p' ! nat ch = valueList p ! nat ch)"
proof -
  let ?m = "nat nChannels"
  let ?q = "p\<lparr>filtersUpdated := (filtersUpdated p)[nat ch := False]\<rparr>"
  have ch: "0 \<le> ch" "ch < int ?m"
    using assms(1,2) by simp_all
  have len: "length (filtersUpdated p) = ?m" "nat ch < ?m"
    using assms(1,2,3) by (simp_all add: parser_channels_def)
  have start: "is_filter_update_necessary (InlinePoseParser_init nChannels) ch = Inr True"
    using ch len(2) by (simp add: is_filter_update_necessary_def InlinePoseParser_init_def
        py_getitem_in_range)
  have q_ch: "parser_channels ?q ?m"
    using assms(3) by (simp add: parser_channels_def)
  have q_flag: "filtersUpdated ?q ! nat ch = False"
    using len by simp
  have cleared: "is_filter_update_necessary ?q ch = Inr False"
    using ch len by (simp add: is_filter_update_necessary_def py_getitem_in_range)
  have "\<exists>p'. parse_pose_inputs ?q us = Inr p' \<and> parser_channels p' ?m
           \<and> filtersUpdated p' ! nat ch = False
           \<and> valueList p' ! nat ch = valueList ?q ! nat ch"
    using assms(4,5) by (intro parse_pose_inputs_keep_clean[OF q_ch ch _ _ q_flag]) simp_all
  then obtain p' where p': "parse_pose_inputs ?q us = Inr p'" "parser_channels p' ?m"
      "filtersUpdated p' ! nat ch = False" "valueList p' ! nat ch = valueList p ! nat ch"
    by auto
  have "is_filter_update_necessary p' ch = Inr False"
    using ch p'(2,3) by (simp add: is_filter_update_necessary_def py_getitem_in_range
        parser_channels_def)
  with p' have stays: "\<exists>p'. parse_pose_inputs ?q us = Inr p'
               \<and> is_filter_update_necessary p' ch = Inr False
               \<and> valueList p' ! nat ch = valueList p ! nat ch"
    by blast
  show ?thesis
    using start parse_pose_input_in_range[OF assms(3) ch]
      get_current_values_in_range[OF assms(3) ch] cleared stays
    by simp
qed

theorem pose_dirty_semantics_witness:
  "is_filter_update_necessary (InlinePoseParser_init 2) 1 = Inr True
   \<and> parse_pose_input (InlinePoseParser_init 2) 1 30 0 =
       Inr \<lparr> filtersUpdated = [True, True],
             valueList = [[0, 0, 0, 0, 0, 0, 0, 0, 0], [30, 0, 0, 0, 0, 0, 0, 0, 0]] \<rparr>
   \<and> get_current_values (InlinePoseParser_init 2) 1 =
       Inr (\<lparr> filtersUpdated = [True, False],
              valueList = [[0, 0, 0, 0, 0, 0, 0, 0, 0], [0, 0, 0, 0, 0, 0, 0, 0, 0]] \<rparr>,
            [0, 0, 0, 0, 0, 0, 0, 0, 0])
   \<and> (\<exists>p'. parse_pose_inputs
              \<lparr> filtersUpdated = [True, False],
                valueList = [[0, 0, 0, 0, 0, 0, 0, 0, 0], [0, 0, 0, 0, 0, 0, 0, 0, 0]] \<rparr>
              [(0, 90, 10), (1, 0, 0)] = Inr p'
          \<and> is_filter_update_necessary p' 1 = Inr False
          \<and> valueList p' ! 1 = [0, 0, 0, 0, 0, 0, 0, 0, 0])"
proof -
  let ?p = "InlinePoseParser_init 2"
  let ?us = "[(0, 90, 10), (1, 0, 0)] :: (int \<times> int \<times> int) list"
  have init: "?p = \<lparr> filtersUpdated = [True, True],
             valueList = [[0, 0, 0, 0, 0, 0, 0, 0, 0], [0, 0, 0, 0, 0, 0, 0, 0, 0]] \<rparr>"
    by (simp add: InlinePoseParser_init_def defaultValue_def numeral_2_eq_2)
  have h1: "(0::int) \<le> 1" and h2: "(1::int) < 2" by simp_all
  have h3: "parser_channels ?p (nat 2)"
    by (rule init_parser_channels)
  have h4: "list_all (update_in_range (nat 2)) ?us"
    by (simp add: update_in_range_def)
  have h5: "list_all (same_pose_on 1 (valueList ?p ! nat 1)) ?us"
    by (simp add: same_pose_on_def init)
  show ?thesis
    using pose_dirty_semantics[OF h1 h2 h3 h4 h5, of 30 0]
    by (simp add: init)
qed


section \<open>Properties of the configuration reader\<close>

lemma read_from_file_append:
  "read_from_file ic fc c (xs @ ys) =
     (case read_from_file ic fc c xs of
        Inl e \<Rightarrow> Inl e
      | Inr c' \<Rightarrow> read_from_file ic fc c' ys)"
  by (induction xs arbitrary: c) (auto split: sum.splits)

lemma parse_boolean_other:
  "v \<noteq> ''True'' \<Longrightarrow> v \<noteq> ''False'' \<Longrightarrow> parse_boolean (VStr v) = VNone"
  by (simp add: parse_boolean_def)

lemma read_line_boolean_other:
  assumes "configurationDict c key = Some (VBool b)"
    and "str_split line = key # v # rest"
    and "v \<noteq> ''True''" and "v \<noteq> ''False''"
  shows "read_line ic fc c line =
           Inr (c\<lparr>config_log := config_log c @ [''Cannot convert '' @ v @ '' to bool. (key: '' @ key],
                  configurationDict := (configurationDict c)(key \<mapsto> VNone)\<rparr>)"
  using assms
  by (simp add: read_line_def py_getitem_def py_index_def parse_boolean_other Let_def)

text \<open>
  Claim C10.  When a line of the configuration file names a key whose stored value is a
  boolean and gives a value token other than \<open>True\<close> and \<open>False\<close>,
  \<open>read_from_file\<close> appends the warning to the log and stores \<open>None\<close> under the
  key, and \<open>get\<close> for that key then returns \<open>None\<close>, not the boolean held before.
\<close>

theorem boolean_key_bad_token_stores_None:
  assumes "read_from_file ic fc c0 before = Inr c"
    and "configurationDict c key = Some (VBool b)"
    and "str_split line = key # v # rest"
    and "v \<noteq> ''True''" and "v \<noteq> ''False''"
  shows "\<exists>c'. read_from_file ic fc c0 (before @ [line]) = Inr c'
           \<and> config_log c' = config_log c @ [''Cannot convert '' @ v @ '' to bool. (key: '' @ key]
           \<and> configurationDict c' = (configurationDict c)(key \<mapsto> VNone)
           \<and> config_get c' key = Inr VNone
           \<and> config_get c' key \<noteq> Inr (VBool b)"
  using assms(1) read_line_boolean_other[OF assms(2-5), of ic fc]
  by (simp add: read_from_file_append config_get_def)

theorem boolean_key_bad_token_stores_None_witness:
  "\<exists>c'. read_from_file (\<lambda>s. Inl ValueError) (\<lambda>s. Inl ValueError) BinSimConfig_init
           ([] @ [''enableCrossfading yes'' @ [CHR 0x0A]]) = Inr c'
     \<and> config_log c' = config_log BinSimConfig_init @
          [''Cannot convert '' @ ''yes'' @ '' to bool. (key: '' @ ''enableCrossfading'']
     \<and> configurationDict c' = (configurationDict BinSimConfig_init)(''enableCrossfading'' \<mapsto> VNone)
     \<and> config_get c' ''enableCrossfading'' = Inr VNone
     \<and> config_get c' ''enableCrossfading'' \<noteq> Inr (VBool False)"
proof -
  have h1: "read_from_file (\<lambda>s. Inl ValueError) (\<lambda>s. Inl ValueError) BinSimConfig_init []
              = Inr BinSimConfig_init"
    by simp
  have h2: "configurationDict BinSimConfig_init ''enableCrossfading'' = Some (VBool False)"
    by (simp add: BinSimConfig_init_def)
  have h3: "str_split (''enableCrossfading yes'' @ [CHR 0x0A]) = ''enableCrossfading'' # ''yes'' # []"
    by (simp add: str_split_def is_space_def)
  have h4: "''yes'' \<noteq> ''True''" and h5: "''yes'' \<noteq> ''False''"
    by simp_all
  show ?thesis
    by (rule boolean_key_bad_token_stores_None[OF h1 h2 h3 h4 h5])
qed


section \<open>Properties of Filter\<close>

lemma andThen_simps:
  "andThen (Inl e) f = Inl e"
  "andThen (Inr x) f = f x"
  by (simp_all add: andThen_def)

lemma Filter_init_one_frame:
  "Filter_init (Arr2 [[1, 1]] 2) 1 1 None =
     Inr \<lparr> Filter.ir_blocks = 1, Filter.block_size = 1, TF_blocks = 1, TF_block_size = 2,
           IR_left_blocked = Some [[1]], IR_right_blocked = Some [[1]],
           filename = None, fd_available = False,
           TF_left_blocked = None, TF_right_blocked = None \<rparr>"
  by (simp add: Filter_init_def np_column_def np_reshape_def)

text \<open>
  Claim C7, as amended.  \<open>getFilterFD\<close> on a filter that was not prepared into the
  frequency domain does not fail: it logs a warning and returns two arrays of zeros of
  shape \<open>[ir_blocks, block_size + 1]\<close>.
\<close>

theorem getFilterFD_unprepared_returns_zeros:
  assumes "\<not> fd_available f"
  shows "getFilterFD f =
           ([''FilterStorage: No frequency domain filter available!''],
            Some (czeros (Filter.ir_blocks f) (Filter.block_size f + 1)),
            Some (czeros (Filter.ir_blocks f) (Filter.block_size f + 1)))"
  using assms by (simp add: getFilterFD_def)

theorem getFilterFD_unprepared_returns_zeros_witness:
  "\<not> fd_available
       \<lparr> Filter.ir_blocks = 2, Filter.block_size = 1, TF_blocks = 2, TF_block_size = 2,
         IR_left_blocked = Some [[1], [0]], IR_right_blocked = Some [[0], [1]],
         filename = None, fd_available = False,
         TF_left_blocked = None, TF_right_blocked = None \<rparr>
   \<and> getFilterFD
       \<lparr> Filter.ir_blocks = 2, Filter.block_size = 1, TF_blocks = 2, TF_block_size = 2,
         IR_left_blocked = Some [[1], [0]], IR_right_blocked = Some [[0], [1]],
         filename = None, fd_available = False,
         TF_left_blocked = None, TF_right_blocked = None \<rparr> =
       ([''FilterStorage: No frequency domain filter available!''],
        Some [[0, 0], [0, 0]], Some [[0, 0], [0, 0]])"
proof -
  let ?f = "\<lparr> Filter.ir_blocks = 2, Filter.block_size = 1, TF_blocks = 2, TF_block_size = 2,
         IR_left_blocked = Some [[1], [0]], IR_right_blocked = Some [[0], [1]],
         filename = None, fd_available = False,
         TF_left_blocked = None, TF_right_blocked = None \<rparr>"
  have h: "\<not> fd_available ?f" by simp
  show ?thesis
    using getFilterFD_unprepared_returns_zeros[OF h] h
    by (simp add: czeros_def numeral_2_eq_2)
qed

text \<open>
  The claim as stated fails: for the filter the constructor builds from a one-frame
  stereo response, which is not prepared, \<open>getFilterFD\<close> returns a value.
\<close>

theorem getFilterFD_unprepared_counterexample:
  "\<exists>f. Filter_init (Arr2 [[1, 1]] 2) 1 1 None = Inr f
       \<and> \<not> fd_available f
       \<and> getFilterFD f =
           ([''FilterStorage: No frequency domain filter available!''],
            Some [[0, 0]], Some [[0, 0]])"
  unfolding Filter_init_one_frame
  by (rule exI, intro conjI, rule refl) (simp_all add: getFilterFD_def czeros_def)


section \<open>Properties of load\_filter\<close>

text \<open>
  Claim C6, at the inputs where the code departs from it.  A late-reverb response with
  fewer frames than \<open>lateReverbSize\<close> is returned as it was read: it is not padded
  with zeros.
\<close>

theorem load_filter_short_late_reverb_unpadded:
  assumes "fs filter_path = Some a"
    and "lateReverbSize st = Some n"
    and "shape0 a < n"
  shows "load_filter st fs filter_path LateReverbFilter = Inr a
         \<and> shape0 a \<noteq> n"
  using assms
  by (simp add: load_filter_def sf_read_def andThen_simps attr_def Let_def)


section \<open>Shapes and sums: lemmas for process\<close>


lemma sequence_list_map_Inr: "sequence_list (map Inr xs) = Inr xs"
  by (induction xs) (simp_all add: andThen_simps)

lemma rect_Cons: "rect (Suc r) c (x # m) = (length x = c \<and> rect r c m)"
  by (auto simp: rect_def)

lemma rect_Nil: "rect r c [] = (r = 0)"
  by (auto simp: rect_def)

lemma map2_bmul_row_rect:
  "rect r c a \<Longrightarrow> rect r c b \<Longrightarrow> map2 bmul_row a b = map Inr (map2 (map2 (*)) a b)"
proof (induction a arbitrary: r b)
  case Nil
  then show ?case by simp
next
  case (Cons x a)
  then obtain y b' where b: "b = y # b'" by (cases b) (auto simp: rect_def)
  from Cons.prems b obtain r' where r: "r = Suc r'" by (cases r) (auto simp: rect_def)
  from Cons.prems have "length x = c" "length y = c" "rect r' c a" "rect r' c b'"
    unfolding b r by (simp_all add: rect_Cons)
  then show ?case
    unfolding b using Cons.IH[of r' b'] by (simp add: bmul_row_def)
qed

lemma np_multiply2_rect:
  assumes "rect r c a" "rect r c b"
  shows "np_multiply2 a b = Inr (map2 (map2 (*)) a b)"
proof -
  have "length a = length b" using assms by (simp add: rect_def)
  then show ?thesis
    unfolding np_multiply2_def map2_bmul_row_rect[OF assms] sequence_list_map_Inr
    by simp
qed

lemma rect_map2_mult:
  "rect r c a \<Longrightarrow> rect r c b \<Longrightarrow> rect r c (map2 (map2 (*)) a b)"
proof (induction a arbitrary: r b)
  case Nil
  then show ?case by (simp add: rect_def)
next
  case (Cons x a)
  then obtain y b' where b: "b = y # b'" by (cases b) (auto simp: rect_def)
  from Cons.prems b obtain r' where r: "r = Suc r'" by (cases r) (auto simp: rect_def)
  from Cons.prems have "length x = c" "length y = c" "rect r' c a" "rect r' c b'"
    unfolding b r by (simp_all add: rect_Cons)
  then show ?case
    unfolding b r using Cons.IH[of r' b'] by (simp add: rect_Cons)
qed

lemma foldl_column_sums:
  assumes "list_all (\<lambda>row. length row = length acc) m"
  shows "length (foldl (\<lambda>acc row. map2 (+) acc row) acc m) = length acc
       \<and> (\<forall>k < length acc. foldl (\<lambda>acc row. map2 (+) acc row) acc m ! k
                               = acc ! k + sum_list (map (\<lambda>i. m ! i ! k) [0..<length m]))"
  using assms
proof (induction m arbitrary: acc)
  case Nil
  then show ?case by simp
next
  case (Cons row m)
  let ?acc' = "map2 (+) acc row"
  from Cons.prems have len: "length row = length acc" and rest: "list_all (\<lambda>r. length r = length acc) m"
    by simp_all
  have len': "length ?acc' = length acc" using len by simp
  have IH: "length (foldl (\<lambda>acc row. map2 (+) acc row) ?acc' m) = length ?acc'
       \<and> (\<forall>k < length ?acc'. foldl (\<lambda>acc row. map2 (+) acc row) ?acc' m ! k
                               = ?acc' ! k + sum_list (map (\<lambda>i. m ! i ! k) [0..<length m]))"
    using rest unfolding len' by (intro Cons.IH[of ?acc', unfolded len'])
  have shift: "sum_list (map (\<lambda>i. (row # m) ! i ! k) [0..<Suc (length m)])
               = row ! k + sum_list (map (\<lambda>i. m ! i ! k) [0..<length m])" for k
  proof -
    have "[0..<Suc (length m)] = 0 # map Suc [0..<length m]"
      by (simp add: upt_conv_Cons map_Suc_upt del: upt_Suc)
    then show ?thesis by (simp add: comp_def del: upt_Suc)
  qed
  show ?case
    using IH len by (simp add: len' shift add.assoc del: upt_Suc)
qed

lemma np_sum_axis0_rect:
  assumes "rect r c m"
  shows "np_sum_axis0 c m = map (\<lambda>k. sum_list (map (\<lambda>i. m ! i ! k) [0..<length m])) [0..<c]"
proof -
  have all: "list_all (\<lambda>row. length row = length (replicate c (0::complex))) m"
    using assms by (simp add: rect_def)
  note f = foldl_column_sums[OF all]
  show ?thesis
    unfolding np_sum_axis0_def
    by (rule nth_equalityI) (use f in simp_all)
qed

lemma multiply_accumulate_rect:
  assumes "rect r (n + 1) tf" "rect r (n + 1) fdl"
  shows "multiply_accumulate n tf fdl = Inr (spec_partition_sum n tf fdl)"
proof -
  let ?p = "map2 (map2 (*)) tf fdl"
  have lens: "length tf = r" "length fdl = r" using assms by (simp_all add: rect_def)
  have rows: "i < r \<Longrightarrow> length (tf ! i) = n + 1 \<and> length (fdl ! i) = n + 1" for i
    using assms by (simp add: rect_def list_all_length)
  have p: "rect r (n + 1) ?p" by (rule rect_map2_mult[OF assms])
  have entry: "i < r \<Longrightarrow> k < n + 1 \<Longrightarrow> ?p ! i ! k = tf ! i ! k * fdl ! i ! k" for i k
    using lens rows[of i] by simp
  have "np_sum_axis0 (n + 1) ?p = spec_partition_sum n tf fdl"
    unfolding np_sum_axis0_rect[OF p] spec_partition_sum_def
    using lens entry by (auto intro!: arg_cong[where f = sum_list] simp: map_eq_conv)
  moreover have "length (spec_partition_sum n tf fdl) = n + 1"
    by (simp add: spec_partition_sum_def)
  ultimately show ?thesis
    by (simp add: multiply_accumulate_def np_multiply2_rect[OF assms] andThen_simps
        broadcast_row_def)
qed

lemma length_irfft: "length (irfft Y) = 2 * (length Y - 1)"
  by (simp add: irfft_def Let_def)

lemma second_half_last_samples:
  "length Y = n + 1 \<Longrightarrow> second_half n Y = last_samples n Y"
  by (simp add: second_half_def last_samples_def length_irfft)

lemma length_rfft: "length (rfft x) = length x div 2 + 1"
  by (simp add: rfft_def Let_def)


lemma rect_length: "rect r c m \<Longrightarrow> length m = r"
  by (simp add: rect_def)

lemma rect_nth: "rect r c m \<Longrightarrow> i < r \<Longrightarrow> length (m ! i) = c"
  by (simp add: rect_def list_all_length)

lemma rect_roll1: "rect r c m \<Longrightarrow> rect r c (np_roll1 m)"
proof (cases "m = []")
  case True
  assume "rect r c m"
  with True show ?thesis by (simp add: np_roll1_def)
next
  case False
  assume r: "rect r c m"
  have "length (butlast m) = length m - 1" by simp
  moreover have "list_all (\<lambda>row. length row = c) (butlast m)"
    using r by (auto simp: rect_def list_all_iff dest: in_set_butlastD)
  moreover have "length (last m) = c"
    using r False by (auto simp: rect_def list_all_iff)
  ultimately show ?thesis
    using r False by (auto simp: rect_def np_roll1_def)
qed

lemma store_spectrum_rect:
  assumes "rect r c m" "0 < r" "length s = c"
  shows "\<exists>m'. store_spectrum s m = Inr m' \<and> rect r c m' \<and> m' ! 0 = s \<and> tl m' = tl m"
proof -
  from assms(1,2) obtain x xs where m: "m = x # xs" by (cases m) (auto simp: rect_def)
  show ?thesis
    using assms unfolding m by (auto simp: store_spectrum_def rect_def)
qed

lemma broadcast_to_rect: "rect r c src \<Longrightarrow> broadcast_to r c src = Inr src"
proof -
  assume r: "rect r c src"
  then have eq: "map (broadcast_row c) src = map Inr src"
    by (auto simp: rect_def list_all_iff broadcast_row_def)
  have "length src = r" using r by (simp add: rect_def)
  then show ?thesis
    unfolding broadcast_to_def eq sequence_list_map_Inr by simp
qed

lemma rect_append: "rect r1 c a \<Longrightarrow> rect r2 c b \<Longrightarrow> rect (r1 + r2) c (a @ b)"
  by (simp add: rect_def)

lemma rect_take: "rect r c m \<Longrightarrow> k \<le> r \<Longrightarrow> rect k c (take k m)"
  by (auto simp: rect_def list_all_iff dest: in_set_takeD)

lemma buildFilters_eq:
  assumes "conv_wf c"
  shows "buildFilters c =
           Inr (if ConvolverFFTW.useSplittedFilters c \<and> buildNewFilter c
                then c\<lparr>TF_left_blocked :=
                         take (late_early_transition c) (TF_left_blocked c) @ TF_late_left_blocked c,
                       TF_right_blocked :=
                         take (late_early_transition c) (TF_right_blocked c) @ TF_late_right_blocked c,
                       buildNewFilter := False\<rparr>
                else c)"
proof -
  let ?n = "ConvolverFFTW.block_size c + 1"
  have sum: "late_early_transition c + late_IR_blocks c = IR_blocks c"
    and lens: "length (TF_left_blocked c) = IR_blocks c" "length (TF_right_blocked c) = IR_blocks c"
    and late: "rect (late_IR_blocks c) ?n (TF_late_left_blocked c)"
              "rect (late_IR_blocks c) ?n (TF_late_right_blocked c)"
    using assms by (simp_all add: conv_wf_def rect_def)
  have diff: "IR_blocks c - late_early_transition c = late_IR_blocks c"
    using sum by simp
  have bl: "broadcast_to (late_IR_blocks c) (Suc (ConvolverFFTW.block_size c)) (TF_late_left_blocked c)
              = Inr (TF_late_left_blocked c)"
    using broadcast_to_rect[OF late(1)] by simp
  have br: "broadcast_to (late_IR_blocks c) (Suc (ConvolverFFTW.block_size c)) (TF_late_right_blocked c)
              = Inr (TF_late_right_blocked c)"
    using broadcast_to_rect[OF late(2)] by simp
  show ?thesis
    by (simp add: buildFilters_def lens diff bl br andThen_simps)
qed

lemma rebuilt_rect:
  assumes "late_early_transition c + late_IR_blocks c = IR_blocks c"
    and "rect (IR_blocks c) n tf" and "rect (late_IR_blocks c) n late"
  shows "rect (IR_blocks c) n (take (late_early_transition c) tf @ late)"
proof -
  have le: "late_early_transition c \<le> IR_blocks c" using assms(1) by simp
  show ?thesis
    using rect_append[OF rect_take[OF assms(2) le] assms(3)] assms(1) by simp
qed

lemma mono_samples_fits: "mono_samples (length v) (Arr1 v) = Inr v"
  by (simp add: mono_samples_def block_size_of_def assign_vec_def)

lemma rect_two_columns:
  assumes "rect n 2 rows"
  shows "np_column (Arr2 rows 2) 0 = Inr (map (\<lambda>r. r ! 0) rows)"
    and "np_column (Arr2 rows 2) 1 = Inr (map (\<lambda>r. r ! 1) rows)"
    and "stereo_block n (Arr2 rows 2) = Inr (Arr2 rows 2)"
  using assms by (simp_all add: np_column_def stereo_block_def block_size_of_def rect_def)

lemma fill_buffer_wf:
  assumes wf: "conv_wf c" and fits: "block_fits c b"
  shows "\<exists>FL FR.
      (if \<not> processStereo c then fill_buffer_mono c b else fill_buffer_stereo c b) =
        Inr (c\<lparr> buffer := (if processCounter c = 0 then take (ConvolverFFTW.block_size c) (buffer c)
                            else drop (ConvolverFFTW.block_size c) (buffer c)) @ left_samples b,
                 buffer2 := (if processStereo c
                             then (if processCounter c = 0 then take (ConvolverFFTW.block_size c) (buffer2 c)
                                   else drop (ConvolverFFTW.block_size c) (buffer2 c)) @ right_samples b
                             else buffer2 c),
                 FDL_left := FL, FDL_right := FR \<rparr>)
      \<and> rect (IR_blocks c) (ConvolverFFTW.block_size c + 1) FL
      \<and> rect (IR_blocks c) (ConvolverFFTW.block_size c + 1) FR
      \<and> FL ! 0 = rfft ((if processCounter c = 0 then take (ConvolverFFTW.block_size c) (buffer c)
                            else drop (ConvolverFFTW.block_size c) (buffer c)) @ left_samples b)
      \<and> FR ! 0 = rfft (if processStereo c
                        then (if processCounter c = 0 then take (ConvolverFFTW.block_size c) (buffer2 c)
                              else drop (ConvolverFFTW.block_size c) (buffer2 c)) @ right_samples b
                        else (if processCounter c = 0 then take (ConvolverFFTW.block_size c) (buffer c)
                              else drop (ConvolverFFTW.block_size c) (buffer c)) @ left_samples b)
      \<and> tl FL = tl (if processCounter c = 0 then FDL_left c else np_roll1 (FDL_left c))
      \<and> tl FR = tl (if processCounter c = 0 then FDL_right c else np_roll1 (FDL_right c))"
proof -
  let ?N = "ConvolverFFTW.block_size c"
  let ?T = "IR_blocks c"
  let ?half = "\<lambda>buf. if processCounter c = 0 then take ?N buf else drop ?N buf"
  let ?fdl = "\<lambda>m. if processCounter c = 0 then m else np_roll1 m"
  have T: "0 < ?T" and N: "0 < ?N"
    and lb: "length (buffer c) = 2 * ?N" "length (buffer2 c) = 2 * ?N"
    and fl: "rect ?T (?N + 1) (FDL_left c)" and fr: "rect ?T (?N + 1) (FDL_right c)"
    using wf by (simp_all add: conv_wf_def)
  have lh: "length (?half (buffer c)) = ?N" "length (?half (buffer2 c)) = ?N"
    using lb by simp_all
  have rl: "rect ?T (?N + 1) (?fdl (FDL_left c))" and rr: "rect ?T (?N + 1) (?fdl (FDL_right c))"
    using fl fr rect_roll1 by auto
  show ?thesis
  proof (cases b)
    case (Arr1 v)
    with fits have mono: "\<not> processStereo c" and lv: "length v = ?N"
      by (simp_all add: block_fits_def)
    let ?B1 = "?half (buffer c) @ v"
    have ls: "length (rfft ?B1) = ?N + 1"
      using lh lv by (simp add: length_rfft)
    from store_spectrum_rect[OF rl T ls] obtain FL where
      FL: "store_spectrum (rfft ?B1) (?fdl (FDL_left c)) = Inr FL" "rect ?T (?N + 1) FL"
        "FL ! 0 = rfft ?B1" "tl FL = tl (?fdl (FDL_left c))"
      by blast
    from store_spectrum_rect[OF rr T ls] obtain FR where
      FR: "store_spectrum (rfft ?B1) (?fdl (FDL_right c)) = Inr FR" "rect ?T (?N + 1) FR"
        "FR ! 0 = rfft ?B1" "tl FR = tl (?fdl (FDL_right c))"
      by blast
    have ms: "mono_samples ?N (Arr1 v) = Inr v"
      using mono_samples_fits[of v] lv by simp
    have "fill_buffer_mono c b = Inr (c\<lparr> buffer := ?B1, buffer2 := buffer2 c, FDL_left := FL, FDL_right := FR \<rparr>)"
      using FL(1) FR(1)
      by (cases "processCounter c = 0")
        (simp_all add: fill_buffer_mono_def Arr1 ms andThen_simps Let_def)
    then show ?thesis
      using mono FL FR Arr1 by (intro exI[of _ FL] exI[of _ FR]) (simp add: left_samples_def)
  next
    case (Arr2 rows k)
    with fits have stereo: "processStereo c" and k: "k = 2" and rows: "rect ?N 2 rows"
      by (simp_all add: block_fits_def)
    note cols = rect_two_columns[OF rows]
    let ?L = "map (\<lambda>r. r ! 0) rows" and ?R = "map (\<lambda>r. r ! 1) rows"
    have lr: "length rows = ?N" using rows by (simp add: rect_def)
    let ?B1 = "?half (buffer c) @ ?L" and ?B2 = "?half (buffer2 c) @ ?R"
    have ls: "length (rfft ?B1) = ?N + 1" "length (rfft ?B2) = ?N + 1"
      using lh lr by (simp_all add: length_rfft)
    from store_spectrum_rect[OF rl T ls(1)] obtain FL where
      FL: "store_spectrum (rfft ?B1) (?fdl (FDL_left c)) = Inr FL" "rect ?T (?N + 1) FL"
        "FL ! 0 = rfft ?B1" "tl FL = tl (?fdl (FDL_left c))"
      by blast
    from store_spectrum_rect[OF rr T ls(2)] obtain FR where
      FR: "store_spectrum (rfft ?B2) (?fdl (FDL_right c)) = Inr FR" "rect ?T (?N + 1) FR"
        "FR ! 0 = rfft ?B2" "tl FR = tl (?fdl (FDL_right c))"
      by blast
    have av: "assign_vec ?N ?L = Inr ?L" "assign_vec ?N ?R = Inr ?R"
      using lr by (simp_all add: assign_vec_def)
    have "fill_buffer_stereo c b = Inr (c\<lparr> buffer := ?B1, buffer2 := ?B2, FDL_left := FL, FDL_right := FR \<rparr>)"
      using FL(1) FR(1)
      by (cases "processCounter c = 0")
        (simp_all add: fill_buffer_stereo_def Arr2 k cols cols[simplified] av av[simplified]
          andThen_simps Let_def)
    then show ?thesis
      using stereo FL FR Arr2
      by (intro exI[of _ FL] exI[of _ FR]) (simp add: left_samples_def right_samples_def)
  qed
qed


lemma saveOldFilters_wf: "conv_wf c \<Longrightarrow> conv_wf (saveOldFilters c)"
  by (simp add: saveOldFilters_def conv_wf_def)

lemma buildFilters_preserves_wf:
  assumes "conv_wf c" and "buildFilters c = Inr c'"
  shows "conv_wf c'"
proof (cases "ConvolverFFTW.useSplittedFilters c \<and> buildNewFilter c")
  case False
  with assms show ?thesis
    unfolding buildFilters_eq[OF assms(1)] by simp
next
  case True
  let ?n = "ConvolverFFTW.block_size c + 1"
  have sum: "late_early_transition c + late_IR_blocks c = IR_blocks c"
    and late: "rect (late_IR_blocks c) ?n (TF_late_left_blocked c)"
              "rect (late_IR_blocks c) ?n (TF_late_right_blocked c)"
    and tf: "rect (IR_blocks c) ?n (TF_left_blocked c)" "rect (IR_blocks c) ?n (TF_right_blocked c)"
    using assms(1) by (simp_all add: conv_wf_def)
  note l = rebuilt_rect[OF sum tf(1) late(1)] and r = rebuilt_rect[OF sum tf(2) late(2)]
  have c': "c' = c\<lparr>TF_left_blocked :=
                         take (late_early_transition c) (TF_left_blocked c) @ TF_late_left_blocked c,
                       TF_right_blocked :=
                         take (late_early_transition c) (TF_right_blocked c) @ TF_late_right_blocked c,
                       buildNewFilter := False\<rparr>"
    using assms(2) True unfolding buildFilters_eq[OF assms(1)] by simp
  show ?thesis
    unfolding c' using assms(1) l r by (simp add: conv_wf_def)
qed


lemma length_spec_partition_sum [simp]: "length (spec_partition_sum n tf fdl) = n + 1"
  by (simp add: spec_partition_sum_def)

lemma process_wf:
  assumes wf: "conv_wf c" and fits: "block_fits c b"
  shows "\<exists>c' outL outR.
      process c b = Inr (c', outL, outR)
      \<and> conv_wf c'
      \<and> ConvolverFFTW.block_size c' = ConvolverFFTW.block_size c
      \<and> IR_blocks c' = IR_blocks c
      \<and> ConvolverFFTW.crossFadeIn c' = ConvolverFFTW.crossFadeIn c
      \<and> ConvolverFFTW.crossFadeOut c' = ConvolverFFTW.crossFadeOut c
      \<and> buffer c' = (if processCounter c = 0 then take (ConvolverFFTW.block_size c) (buffer c)
                      else drop (ConvolverFFTW.block_size c) (buffer c)) @ left_samples b
      \<and> buffer2 c' = (if processStereo c
                       then (if processCounter c = 0 then take (ConvolverFFTW.block_size c) (buffer2 c)
                             else drop (ConvolverFFTW.block_size c) (buffer2 c)) @ right_samples b
                       else buffer2 c)
      \<and> FDL_left c' ! 0 = rfft (buffer c')
      \<and> FDL_right c' ! 0 = rfft (if processStereo c then buffer2 c' else buffer c')
      \<and> tl (FDL_left c') = tl (if processCounter c = 0 then FDL_left c else np_roll1 (FDL_left c))
      \<and> tl (FDL_right c') = tl (if processCounter c = 0 then FDL_right c else np_roll1 (FDL_right c))
      \<and> TF_left_blocked_previous c' = TF_left_blocked c
      \<and> TF_right_blocked_previous c' = TF_right_blocked c
      \<and> TF_left_blocked c' =
           (if ConvolverFFTW.useSplittedFilters c \<and> buildNewFilter c
            then take (late_early_transition c) (TF_left_blocked c) @ TF_late_left_blocked c
            else TF_left_blocked c)
      \<and> TF_right_blocked c' =
           (if ConvolverFFTW.useSplittedFilters c \<and> buildNewFilter c
            then take (late_early_transition c) (TF_right_blocked c) @ TF_late_right_blocked c
            else TF_right_blocked c)
      \<and> \<not> interpolate c'
      \<and> processCounter c' = processCounter c + 1
      \<and> resultLeftFreq c' =
           spec_partition_sum (ConvolverFFTW.block_size c) (TF_left_blocked c') (FDL_left c')
      \<and> resultRightFreq c' =
           spec_partition_sum (ConvolverFFTW.block_size c) (TF_right_blocked c') (FDL_right c')
      \<and> resultLeftFreqPrevious c' =
           (if interpolate c
            then spec_partition_sum (ConvolverFFTW.block_size c) (TF_left_blocked_previous c') (FDL_left c')
            else resultLeftFreqPrevious c)
      \<and> resultRightFreqPrevious c' =
           (if interpolate c
            then spec_partition_sum (ConvolverFFTW.block_size c) (TF_right_blocked_previous c') (FDL_right c')
            else resultRightFreqPrevious c)
      \<and> outL =
           (if interpolate c
            then crossfade (last_samples (ConvolverFFTW.block_size c) (resultLeftFreq c'))
                   (ConvolverFFTW.crossFadeIn c)
                   (last_samples (ConvolverFFTW.block_size c) (resultLeftFreqPrevious c'))
                   (ConvolverFFTW.crossFadeOut c)
            else map Some (last_samples (ConvolverFFTW.block_size c) (resultLeftFreq c')))
      \<and> outR =
           (if interpolate c
            then crossfade (last_samples (ConvolverFFTW.block_size c) (resultRightFreq c'))
                   (ConvolverFFTW.crossFadeIn c)
                   (last_samples (ConvolverFFTW.block_size c) (resultRightFreqPrevious c'))
                   (ConvolverFFTW.crossFadeOut c)
            else map Some (last_samples (ConvolverFFTW.block_size c) (resultRightFreq c')))"
proof -
  let ?N = "ConvolverFFTW.block_size c"
  let ?T = "IR_blocks c"
  let ?B1 = "(if processCounter c = 0 then take ?N (buffer c) else drop ?N (buffer c)) @ left_samples b"
  let ?B2 = "(if processStereo c
                       then (if processCounter c = 0 then take ?N (buffer2 c) else drop ?N (buffer2 c)) @ right_samples b
                       else buffer2 c)"
  let ?B3 = "if processStereo c
                        then (if processCounter c = 0 then take ?N (buffer2 c)
                              else drop ?N (buffer2 c)) @ right_samples b
                        else (if processCounter c = 0 then take ?N (buffer c)
                              else drop ?N (buffer c)) @ left_samples b"
  define B1 where "B1 = ?B1"
  define B2 where "B2 = ?B2"
  define TL where "TL = (if ConvolverFFTW.useSplittedFilters c \<and> buildNewFilter c
            then take (late_early_transition c) (TF_left_blocked c) @ TF_late_left_blocked c
            else TF_left_blocked c)"
  define TR where "TR = (if ConvolverFFTW.useSplittedFilters c \<and> buildNewFilter c
            then take (late_early_transition c) (TF_right_blocked c) @ TF_late_right_blocked c
            else TF_right_blocked c)"
  have N: "0 < ?N" and T: "0 < ?T"
    and sum: "late_early_transition c + late_IR_blocks c = IR_blocks c"
    and lb: "length (buffer c) = 2 * ?N" "length (buffer2 c) = 2 * ?N"
    and late: "rect (late_IR_blocks c) (?N + 1) (TF_late_left_blocked c)"
              "rect (late_IR_blocks c) (?N + 1) (TF_late_right_blocked c)"
    and tf: "rect ?T (?N + 1) (TF_left_blocked c)" "rect ?T (?N + 1) (TF_right_blocked c)"
    and win: "length (ConvolverFFTW.crossFadeIn c) = ?N" "length (ConvolverFFTW.crossFadeOut c) = ?N"
    using wf by (simp_all add: conv_wf_def)
  have samples: "length (left_samples b) = ?N" "processStereo c \<Longrightarrow> length (right_samples b) = ?N"
    using fits by (auto simp: block_fits_def left_samples_def right_samples_def rect_def
        split: ndarray.splits)
  have lB: "length B1 = 2 * ?N" "length B2 = 2 * ?N"
    using lb samples by (auto simp: B1_def B2_def)
  from fill_buffer_wf[OF wf fits] obtain FL FR where
    fill0: "(if \<not> processStereo c then fill_buffer_mono c b else fill_buffer_stereo c b) =
             Inr (c\<lparr>buffer := ?B1, buffer2 := ?B2, FDL_left := FL, FDL_right := FR\<rparr>)"
    and FL0: "rect ?T (?N + 1) FL" "FL ! 0 = rfft ?B1"
        "tl FL = tl (if processCounter c = 0 then FDL_left c else np_roll1 (FDL_left c))"
    and FR0: "rect ?T (?N + 1) FR" "FR ! 0 = rfft ?B3"
        "tl FR = tl (if processCounter c = 0 then FDL_right c else np_roll1 (FDL_right c))"
    by blast
  have B3: "?B3 = (if processStereo c then B2 else B1)"
    by (simp add: B1_def B2_def)
  note fill = fill0[folded B1_def B2_def]
  note FL = FL0(1) FL0(2)[folded B1_def] FL0(3)
  note FR = FR0(1) FR0(2)[unfolded B3] FR0(3)
  define c1 where "c1 = saveOldFilters (c\<lparr>buffer := B1, buffer2 := B2, FDL_left := FL, FDL_right := FR\<rparr>)"
  have wf1: "conv_wf c1"
    using wf FL(1) FR(1) lB by (simp add: c1_def saveOldFilters_def conv_wf_def)
  have rTL: "rect ?T (?N + 1) TL" and rTR: "rect ?T (?N + 1) TR"
    using rebuilt_rect[OF sum tf(1) late(1)] rebuilt_rect[OF sum tf(2) late(2)] tf
    by (simp_all add: TL_def TR_def)
  define c2 where "c2 = (if ConvolverFFTW.useSplittedFilters c1 \<and> buildNewFilter c1
                then c1\<lparr>TF_left_blocked :=
                         take (late_early_transition c1) (TF_left_blocked c1) @ TF_late_left_blocked c1,
                       TF_right_blocked :=
                         take (late_early_transition c1) (TF_right_blocked c1) @ TF_late_right_blocked c1,
                       buildNewFilter := False\<rparr>
                else c1)"
  have build: "buildFilters c1 = Inr c2"
    unfolding buildFilters_eq[OF wf1] c2_def by (rule refl)
  have wf2: "conv_wf c2"
    by (rule buildFilters_preserves_wf[OF wf1 build])
  define yl where "yl = spec_partition_sum ?N TL FL"
  define yr where "yr = spec_partition_sum ?N TR FR"
  define pl where "pl = spec_partition_sum ?N (TF_left_blocked c) FL"
  define pr where "pr = spec_partition_sum ?N (TF_right_blocked c) FR"
  have mac: "multiply_accumulate ?N TL FL = Inr yl" "multiply_accumulate ?N TR FR = Inr yr"
      "multiply_accumulate ?N (TF_left_blocked c) FL = Inr pl"
      "multiply_accumulate ?N (TF_right_blocked c) FR = Inr pr"
    unfolding yl_def yr_def pl_def pr_def
    by (rule multiply_accumulate_rect[OF rTL FL(1)] multiply_accumulate_rect[OF rTR FR(1)]
        multiply_accumulate_rect[OF tf(1) FL(1)] multiply_accumulate_rect[OF tf(2) FR(1)])+
  have sh: "second_half ?N yl = last_samples ?N yl" "second_half ?N yr = last_samples ?N yr"
      "second_half ?N pl = last_samples ?N pl" "second_half ?N pr = last_samples ?N pr"
    by (simp_all add: second_half_last_samples yl_def yr_def pl_def pr_def)
  define oL where "oL = (if interpolate c
            then crossfade (last_samples ?N yl) (ConvolverFFTW.crossFadeIn c)
                   (last_samples ?N pl) (ConvolverFFTW.crossFadeOut c)
            else map Some (last_samples ?N yl))"
  define oR where "oR = (if interpolate c
            then crossfade (last_samples ?N yr) (ConvolverFFTW.crossFadeIn c)
                   (last_samples ?N pr) (ConvolverFFTW.crossFadeOut c)
            else map Some (last_samples ?N yr))"
  define c3 where "c3 = c2\<lparr> resultLeftFreq := yl, resultRightFreq := yr,
                    outputLeft := map Some (second_half ?N yl),
                    outputRight := map Some (second_half ?N yr) \<rparr>"
  define c4 where "c4 = (if interpolate c
         then c3\<lparr> resultLeftFreqPrevious := pl, resultRightFreqPrevious := pr,
                      outputLeft := crossfade (second_half ?N yl) (ConvolverFFTW.crossFadeIn c)
                                      (second_half ?N pl) (ConvolverFFTW.crossFadeOut c),
                      outputRight := crossfade (second_half ?N yr) (ConvolverFFTW.crossFadeIn c)
                                       (second_half ?N pr) (ConvolverFFTW.crossFadeOut c) \<rparr>
         else c3)"
  define c5 where "c5 = c4\<lparr> processCounter := processCounter c4 + 1, interpolate := False \<rparr>"
  have sel2: "ConvolverFFTW.block_size c2 = ?N" "TF_left_blocked c2 = TL" "TF_right_blocked c2 = TR"
      "FDL_left c2 = FL" "FDL_right c2 = FR" "interpolate c2 = interpolate c"
      "TF_left_blocked_previous c2 = TF_left_blocked c"
      "TF_right_blocked_previous c2 = TF_right_blocked c"
      "ConvolverFFTW.crossFadeIn c2 = ConvolverFFTW.crossFadeIn c"
      "ConvolverFFTW.crossFadeOut c2 = ConvolverFFTW.crossFadeOut c"
      "processCounter c2 = processCounter c"
      "resultLeftFreqPrevious c2 = resultLeftFreqPrevious c"
      "resultRightFreqPrevious c2 = resultRightFreqPrevious c"
      "IR_blocks c2 = ?T" "buffer c2 = B1" "buffer2 c2 = B2"
    by (simp_all add: c2_def c1_def saveOldFilters_def TL_def TR_def)
  have sel3: "ConvolverFFTW.block_size c3 = ?N" "TF_left_blocked_previous c3 = TF_left_blocked c"
      "TF_right_blocked_previous c3 = TF_right_blocked c"
      "FDL_left c3 = FL" "FDL_right c3 = FR" "interpolate c3 = interpolate c"
      "ConvolverFFTW.crossFadeIn c3 = ConvolverFFTW.crossFadeIn c"
      "ConvolverFFTW.crossFadeOut c3 = ConvolverFFTW.crossFadeOut c"
    by (simp_all add: c3_def sel2)
  have step4: "(if interpolate c3 then
            andThen (multiply_accumulate (ConvolverFFTW.block_size c3)
                       (TF_left_blocked_previous c3) (FDL_left c3)) (\<lambda>pl.
            andThen (multiply_accumulate (ConvolverFFTW.block_size c3)
                       (TF_right_blocked_previous c3) (FDL_right c3)) (\<lambda>pr.
              Inr (c3\<lparr> resultLeftFreqPrevious := pl, resultRightFreqPrevious := pr,
                      outputLeft := crossfade (second_half (ConvolverFFTW.block_size c3) yl)
                                      (ConvolverFFTW.crossFadeIn c3)
                                      (second_half (ConvolverFFTW.block_size c3) pl)
                                      (ConvolverFFTW.crossFadeOut c3),
                      outputRight := crossfade (second_half (ConvolverFFTW.block_size c3) yr)
                                       (ConvolverFFTW.crossFadeIn c3)
                                       (second_half (ConvolverFFTW.block_size c3) pr)
                                       (ConvolverFFTW.crossFadeOut c3) \<rparr>)))
          else Inr c3) = Inr c4"
    unfolding sel3 mac andThen_simps c4_def by simp
  have run: "process c b = Inr (c5, outputLeft c5, outputRight c5)"
    unfolding process_def fill andThen_simps c1_def[symmetric] build sel2 mac Let_def
      c3_def[symmetric] step4 c5_def[symmetric]
    by (rule refl)
  have sel5: "ConvolverFFTW.block_size c5 = ?N" "IR_blocks c5 = ?T"
      "ConvolverFFTW.crossFadeIn c5 = ConvolverFFTW.crossFadeIn c"
      "ConvolverFFTW.crossFadeOut c5 = ConvolverFFTW.crossFadeOut c"
      "buffer c5 = B1" "buffer2 c5 = B2" "FDL_left c5 = FL" "FDL_right c5 = FR"
      "TF_left_blocked_previous c5 = TF_left_blocked c"
      "TF_right_blocked_previous c5 = TF_right_blocked c"
      "TF_left_blocked c5 = TL" "TF_right_blocked c5 = TR"
      "\<not> interpolate c5" "processCounter c5 = processCounter c + 1"
      "resultLeftFreq c5 = yl" "resultRightFreq c5 = yr"
      "resultLeftFreqPrevious c5 = (if interpolate c then pl else resultLeftFreqPrevious c)"
      "resultRightFreqPrevious c5 = (if interpolate c then pr else resultRightFreqPrevious c)"
      "outputLeft c5 = oL" "outputRight c5 = oR"
    by (simp_all add: c5_def c4_def c3_def sel2 sh oL_def oR_def)
  have wf5: "conv_wf c5"
    using wf2 by (simp add: c5_def c4_def c3_def conv_wf_def)
  show ?thesis
    apply (rule exI[of _ c5], rule exI[of _ oL], rule exI[of _ oR])
    unfolding sel5
    using run wf5 FL FR
    by (simp add: sel5 B1_def B2_def TL_def TR_def yl_def yr_def pl_def pr_def oL_def oR_def)
qed


section \<open>Properties of ConvolverFFTW\<close>

text \<open>
  Claim C4, at the inputs where the code departs from it.  \<open>setIR\<close> called with a
  filter and a crossfade flag only, so that \<open>dist\<close> and \<open>dir_filter\<close> take their
  defaults \<open>1\<close> and \<open>1\<close>, raises \<open>AttributeError\<close> (an integer has no
  \<open>getFilterFD\<close>) before it writes anything: no convolver state results.
\<close>

theorem setIR_defaults_raise_AttributeError:
  "setIR c flt do_interpolation 1 (PyInt 1) = Inl AttributeError"
  by (simp add: setIR_def arg_getFilterFD_def andThen_simps split: prod.splits)

lemma ConvolverFFTW_init_windows:
  assumes "ConvolverFFTW_init ir_sz n ps us lr = Inr c"
  shows "ConvolverFFTW.crossFadeOut c = cosine_square_window n"
    and "ConvolverFFTW.crossFadeIn c = rev (cosine_square_window n)"
    and "ConvolverFFTW.block_size c = n"
  using assms
  by (auto simp: ConvolverFFTW_init_def andThen_def Let_def split: sum.splits if_splits)

lemma length_cosine_square_window [simp]: "length (cosine_square_window n) = n"
  by (simp add: cosine_square_window_def)


lemma length_last_samples: "length Y = n + 1 \<Longrightarrow> length (last_samples n Y) = n"
  by (simp add: last_samples_def length_irfft)

lemma last_samples_drop: "length Y = n + 1 \<Longrightarrow> last_samples n Y = drop n (irfft Y)"
  by (simp add: last_samples_def length_irfft)

lemma crossfade_nth:
  assumes "n < length new" "n < length w_in" "n < length old" "n < length w_out"
  shows "crossfade new w_in old w_out ! n
           = fadd (fmul (new ! n) (w_in ! n)) (fmul (old ! n) (w_out ! n))"
  using assms by (simp add: crossfade_def)

lemma length_crossfade:
  "length (crossfade new w_in old w_out)
     = min (min (length new) (length w_in)) (min (length old) (length w_out))"
  by (simp add: crossfade_def)

lemma ConvolverFFTW_init_wf:
  assumes "ConvolverFFTW_init ir_sz n ps us lr = Inr c" and "0 < IR_blocks c"
  shows "conv_wf c"
proof -
  have n: "n \<noteq> 0"
    using assms(1)
    by (auto simp: ConvolverFFTW_init_def andThen_def py_floordiv_def Let_def
        split: if_splits sum.splits)
  define lateBlocks where "lateBlocks = (if us then lr div n else 0)"
  define irBlocks where "irBlocks = (if us then ir_sz + lr else ir_sz) div n"
  have le: "lateBlocks \<le> irBlocks"
    by (simp add: lateBlocks_def irBlocks_def div_le_mono)
  have sel: "ConvolverFFTW.block_size c = n" "IR_blocks c = irBlocks" "late_IR_blocks c = lateBlocks"
      "late_early_transition c = irBlocks - lateBlocks"
      "buffer c = replicate (n * 2) 0" "buffer2 c = replicate (n * 2) 0"
      "TF_late_left_blocked c = czeros lateBlocks (n + 1)"
      "TF_late_right_blocked c = czeros lateBlocks (n + 1)"
      "TF_left_blocked c = czeros irBlocks (n + 1)"
      "TF_right_blocked c = czeros irBlocks (n + 1)"
      "TF_left_blocked_previous c = czeros irBlocks (n + 1)"
      "TF_right_blocked_previous c = czeros irBlocks (n + 1)"
      "FDL_left c = czeros irBlocks (n + 1)" "FDL_right c = czeros irBlocks (n + 1)"
      "ConvolverFFTW.crossFadeIn c = rev (cosine_square_window n)"
      "ConvolverFFTW.crossFadeOut c = cosine_square_window n"
    using assms(1) n
    by (auto simp: ConvolverFFTW_init_def andThen_def py_floordiv_def Let_def
        lateBlocks_def irBlocks_def split: if_splits)
  have z: "rect r k (czeros r k)" for r k
    by (simp add: rect_def czeros_def list_all_length)
  show ?thesis
    using assms(2) n le unfolding conv_wf_def sel by (simp add: z)
qed




section \<open>What process leaves as it is\<close>

lemma andThen_InrE:
  assumes "andThen r f = Inr y"
  obtains x where "r = Inr x" and "f x = Inr y"
  using assms by (cases r) (simp_all add: andThen_def)

lemma fill_buffer_mono_layout:
  assumes "fill_buffer_mono c b = Inr c1"
  shows "late_early_transition c1 = late_early_transition c
       \<and> processStereo c1 = processStereo c
       \<and> ConvolverFFTW.useSplittedFilters c1 = ConvolverFFTW.useSplittedFilters c"
  using assms
  by (auto simp: fill_buffer_mono_def Let_def store_spectrum_def
      elim!: andThen_InrE split: if_splits)

lemma fill_buffer_stereo_layout:
  assumes "fill_buffer_stereo c b = Inr c1"
  shows "late_early_transition c1 = late_early_transition c
       \<and> processStereo c1 = processStereo c
       \<and> ConvolverFFTW.useSplittedFilters c1 = ConvolverFFTW.useSplittedFilters c"
  using assms
  by (auto simp: fill_buffer_stereo_def Let_def store_spectrum_def
      elim!: andThen_InrE split: if_splits)

lemma buildFilters_layout:
  assumes "buildFilters c = Inr c1"
  shows "late_early_transition c1 = late_early_transition c
       \<and> processStereo c1 = processStereo c
       \<and> ConvolverFFTW.useSplittedFilters c1 = ConvolverFFTW.useSplittedFilters c"
  using assms
  by (auto simp: buildFilters_def elim!: andThen_InrE split: if_splits)

lemma process_layout:
  assumes "process c b = Inr (c', outL, outR)"
  shows "late_early_transition c' = late_early_transition c
       \<and> processStereo c' = processStereo c
       \<and> ConvolverFFTW.useSplittedFilters c' = ConvolverFFTW.useSplittedFilters c"
proof -
  from assms obtain c1 c2 where
    fill: "(if \<not> processStereo c then fill_buffer_mono c b else fill_buffer_stereo c b) = Inr c1"
    and build: "buildFilters (saveOldFilters c1) = Inr c2"
    and lay4: "late_early_transition c' = late_early_transition c2
       \<and> processStereo c' = processStereo c2
       \<and> ConvolverFFTW.useSplittedFilters c' = ConvolverFFTW.useSplittedFilters c2"
    unfolding process_def Let_def
    by (elim andThen_InrE) (auto split: if_splits elim!: andThen_InrE)
  have "late_early_transition c1 = late_early_transition c
       \<and> processStereo c1 = processStereo c
       \<and> ConvolverFFTW.useSplittedFilters c1 = ConvolverFFTW.useSplittedFilters c"
    using fill fill_buffer_mono_layout[of c b c1] fill_buffer_stereo_layout[of c b c1]
    by (simp split: if_splits)
  moreover have "late_early_transition c2 = late_early_transition c1
       \<and> processStereo c2 = processStereo c1
       \<and> ConvolverFFTW.useSplittedFilters c2 = ConvolverFFTW.useSplittedFilters c1"
    using buildFilters_layout[OF build] by (simp add: saveOldFilters_def)
  ultimately show ?thesis
    using lay4 by simp
qed


section \<open>A crossfade on a concrete convolver\<close>


lemma upt_4: "[0..<4] = [0, 1, 2, 3]" "[0..<3] = [0, 1, 2]" "[0..<2] = [0, 1]" "[1..<2] = [1]"
  by (simp_all add: upt_rec)

lemma cos_3pi_2: "cos (pi * 3 / 2) = 0" "sin (pi * 3 / 2) = - 1"
proof -
  have e: "pi * 3 / 2 = 3 / 2 * pi" by simp
  show "cos (pi * 3 / 2) = 0" unfolding e by (rule cos_3over2_pi)
  show "sin (pi * 3 / 2) = - 1" unfolding e by (rule sin_3over2_pi)
qed

lemma rfft_impulse_at_2: "rfft [0, 0, 1, 0] = [1, - 1, 1]"
  by (simp add: rfft_def Let_def upt_4 complex_eq_iff)

lemma rfft_impulse_at_0: "rfft [1, 0, 0, 0] = [1, 1, 1]"
  by (simp add: rfft_def Let_def upt_4 complex_eq_iff)

lemma irfft_alternating: "irfft [1, - 1, 1] = [0, 0, 1, 0]"
  by (simp add: irfft_def Let_def upt_4 cos_3pi_2)


lemma window_2: "cosine_square_window 2 = [Some 1, Some 0]"
  by (simp add: cosine_square_window_def upt_4)

lemma sums:
  "spec_partition_sum 2 [[1, 1, 1]] [[1, - 1, 1]] = [1, - 1, 1]"
  "spec_partition_sum 2 [[0, 0, 0]] [[1, - 1, 1]] = [0, 0, 0]"
  by (simp_all add: spec_partition_sum_def upt_4)



lemma late_filter_prepared:
  "andThen (Filter_init (Arr2 [[1, 1], [0, 0]] 2) 1 2 None)
     (\<lambda>f. storeInFDomain f \<lparr>plan_blocks = 1, plan_block_size = 2\<rparr>) =
   Inr \<lparr> Filter.ir_blocks = 1, Filter.block_size = 2, TF_blocks = 1, TF_block_size = 3,
         IR_left_blocked = None, IR_right_blocked = None,
         filename = None, fd_available = True,
         Filter.TF_left_blocked = Some [[1, 1, 1]], Filter.TF_right_blocked = Some [[1, 1, 1]] \<rparr>"
proof -
  have r2: "replicate 2 (0::real) = [0, 0]" by (simp add: numeral_eq_Suc)
  show ?thesis
    by (simp add: Filter_init_def np_column_def np_reshape_def andThen_simps storeInFDomain_def
        plan_call_def r2 rfft_impulse_at_0 upt_4)
qed

lemma small_arrays:
  "czeros 1 3 = [[0, 0, 0]]" "czeros (Suc 0) 3 = [[0, 0, 0]]"
  "replicate 4 (0::real) = [0, 0, 0, 0]"
  by (simp_all add: czeros_def numeral_eq_Suc)

lemma rect_singleton: "rect 1 n m \<Longrightarrow> m = [m ! 0]"
  by (cases m) (auto simp: rect_def)





section \<open>A crossfade after a filter swap\<close>

lemma rfft_gain_3: "rfft [3, 0, 0, 0] = [3, 3, 3]"
  by (simp add: rfft_def Let_def upt_4 complex_eq_iff)

lemma irfft_alternating_3: "irfft [3, - 3, 3] = [0, 0, 3, 0]"
  by (simp add: irfft_def Let_def upt_4 cos_3pi_2)

lemma sums_3:
  "spec_partition_sum 2 [[3, 3, 3]] [[1, - 1, 1]] = [3, - 3, 3]"
  by (simp add: spec_partition_sum_def upt_4)

lemma gain_3_filter_prepared:
  "andThen (Filter_init (Arr2 [[3, 3], [0, 0]] 2) 1 2 None)
     (\<lambda>f. storeInFDomain f \<lparr>plan_blocks = 1, plan_block_size = 2\<rparr>) =
   Inr \<lparr> Filter.ir_blocks = 1, Filter.block_size = 2, TF_blocks = 1, TF_block_size = 3,
         IR_left_blocked = None, IR_right_blocked = None,
         filename = None, fd_available = True,
         Filter.TF_left_blocked = Some [[3, 3, 3]], Filter.TF_right_blocked = Some [[3, 3, 3]] \<rparr>"
proof -
  have r2: "replicate 2 (0::real) = [0, 0]" by (simp add: numeral_eq_Suc)
  show ?thesis
    by (simp add: Filter_init_def np_column_def np_reshape_def andThen_simps storeInFDomain_def
        plan_call_def r2 rfft_gain_3 upt_4)
qed

lemma cf_3:
  "crossfade [3, 0] [Some 0, Some 1] [3, 0] [Some 1, Some 0] = [Some 3, Some 0]"
  "crossfade [3, 0] [Some 0, Some 1] [1, 0] [Some 1, Some 0] = [Some 1, Some 0]"
  by (simp_all add: crossfade_def fmul_def fadd_def)

text \<open>
  Claim C3, at the inputs where the code departs from it.  A mono convolver of one
  block of two samples holds the filter of gain 1 and has processed a block; \<open>setIR\<close>
  then hands it the filter of gain 3 with crossfading, and \<open>process\<close> receives the
  block \<open>[1, 0]\<close>.  \<open>setIR\<close> has already written the new filter into the filter
  array when \<open>saveOldFilters\<close>, called in \<open>process\<close>, copies that array: the
  snapshot is the new filter, the second output pair is the result of the new filter
  again, and the output is \<open>[3, 0]\<close>.  The blend of the new-filter result
  \<open>[3, 0]\<close> with the old-filter result \<open>[1, 0]\<close> is \<open>[1, 0]\<close>.
\<close>

theorem process_crossfade_after_setIR_blends_new_with_new:
  "\<exists>c0 f1 f3 c1 c2 out1L out1R c3 c4 outL outR.
     ConvolverFFTW_init 2 2 False False 0 = Inr c0
     \<and> andThen (Filter_init (Arr2 [[1, 1], [0, 0]] 2) 1 2 None)
          (\<lambda>f. storeInFDomain f \<lparr>plan_blocks = 1, plan_block_size = 2\<rparr>) = Inr f1
     \<and> andThen (Filter_init (Arr2 [[3, 3], [0, 0]] 2) 1 2 None)
          (\<lambda>f. storeInFDomain f \<lparr>plan_blocks = 1, plan_block_size = 2\<rparr>) = Inr f3
     \<and> setIR c0 f1 False 1 (PyFilter f1) = Inr c1
     \<and> process c1 (Arr1 [0, 0]) = Inr (c2, out1L, out1R)
     \<and> TF_left_blocked c2 = [[1, 1, 1]] \<and> TF_right_blocked c2 = [[1, 1, 1]]
     \<and> setIR c2 f3 True 1 (PyFilter f1) = Inr c3
     \<and> interpolate c3
     \<and> TF_left_blocked c3 = [[3, 3, 3]] \<and> TF_right_blocked c3 = [[3, 3, 3]]
     \<and> process c3 (Arr1 [1, 0]) = Inr (c4, outL, outR)
     \<and> \<not> interpolate c4
     \<and> FDL_left c4 = [[1, - 1, 1]] \<and> FDL_right c4 = [[1, - 1, 1]]
     \<and> TF_left_blocked_previous c4 = [[3, 3, 3]]
     \<and> TF_right_blocked_previous c4 = [[3, 3, 3]]
     \<and> last_samples 2 (spec_partition_sum 2 [[3, 3, 3]] (FDL_left c4)) = [3, 0]
     \<and> last_samples 2 (spec_partition_sum 2 [[1, 1, 1]] (FDL_left c4)) = [1, 0]
     \<and> crossfade [3, 0] (ConvolverFFTW.crossFadeIn c3) [1, 0] (ConvolverFFTW.crossFadeOut c3)
          = [Some 1, Some 0]
     \<and> outL = [Some 3, Some 0] \<and> outR = [Some 3, Some 0]"
proof -
  let ?f1 = "\<lparr> Filter.ir_blocks = 1, Filter.block_size = 2, TF_blocks = 1, TF_block_size = 3,
         IR_left_blocked = None, IR_right_blocked = None,
         filename = None, fd_available = True,
         Filter.TF_left_blocked = Some [[1, 1, 1]], Filter.TF_right_blocked = Some [[1, 1, 1]] \<rparr>"
  let ?f3 = "\<lparr> Filter.ir_blocks = 1, Filter.block_size = 2, TF_blocks = 1, TF_block_size = 3,
         IR_left_blocked = None, IR_right_blocked = None,
         filename = None, fd_available = True,
         Filter.TF_left_blocked = Some [[3, 3, 3]], Filter.TF_right_blocked = Some [[3, 3, 3]] \<rparr>"
  obtain c0 where c0: "ConvolverFFTW_init 2 2 False False 0 = Inr c0"
    by (simp add: ConvolverFFTW_init_def andThen_simps py_floordiv_def)
  have sel0: "ConvolverFFTW.block_size c0 = 2" "IR_blocks c0 = 1"
      "late_early_transition c0 = 1" "\<not> ConvolverFFTW.useSplittedFilters c0"
      "buffer c0 = [0, 0, 0, 0]"
      "TF_left_blocked c0 = [[0, 0, 0]]" "TF_right_blocked c0 = [[0, 0, 0]]"
      "ConvolverFFTW.crossFadeIn c0 = [Some 0, Some 1]"
      "ConvolverFFTW.crossFadeOut c0 = [Some 1, Some 0]"
      "\<not> processStereo c0" "processCounter c0 = 0"
    using c0 ConvolverFFTW_init_windows[OF c0]
    by (auto simp: ConvolverFFTW_init_def andThen_simps py_floordiv_def small_arrays window_2)
  have wf0: "conv_wf c0"
    by (rule ConvolverFFTW_init_wf[OF c0]) (simp add: sel0)
  define c1 where "c1 = c0\<lparr> TF_left_blocked := [[1, 1, 1]], TF_right_blocked := [[1, 1, 1]],
                interpolate := False, buildNewFilter := True \<rparr>"
  have set1: "setIR c0 ?f1 False 1 (PyFilter ?f1) = Inr c1"
    by (simp add: setIR_def arg_getFilterFD_def getFilterFD_def array_of_def andThen_simps sel0
        np_multiply2_def bmul_row_def np_scale2_def
        broadcast_to_def broadcast_row_def c1_def)
  have wf1: "conv_wf c1"
    using wf0 by (simp add: c1_def conv_wf_def rect_def sel0)
  have sel1: "ConvolverFFTW.block_size c1 = 2" "IR_blocks c1 = 1"
      "late_early_transition c1 = 1" "\<not> ConvolverFFTW.useSplittedFilters c1"
      "\<not> interpolate c1" "buffer c1 = [0, 0, 0, 0]"
      "TF_left_blocked c1 = [[1, 1, 1]]" "TF_right_blocked c1 = [[1, 1, 1]]"
      "ConvolverFFTW.crossFadeIn c1 = [Some 0, Some 1]"
      "ConvolverFFTW.crossFadeOut c1 = [Some 1, Some 0]"
      "\<not> processStereo c1" "processCounter c1 = 0"
    by (simp_all add: c1_def sel0)
  have fits1: "block_fits c1 (Arr1 [0, 0])"
    by (simp add: block_fits_def sel1)
  from process_wf[OF wf1 fits1] obtain c2 out1L out1R where
    run1: "process c1 (Arr1 [0, 0]) = Inr (c2, out1L, out1R)" and wf2: "conv_wf c2"
    and same2: "ConvolverFFTW.block_size c2 = ConvolverFFTW.block_size c1" "IR_blocks c2 = IR_blocks c1"
      "ConvolverFFTW.crossFadeIn c2 = ConvolverFFTW.crossFadeIn c1"
      "ConvolverFFTW.crossFadeOut c2 = ConvolverFFTW.crossFadeOut c1"
    and buf2: "buffer c2 = (if processCounter c1 = 0 then take (ConvolverFFTW.block_size c1) (buffer c1)
                      else drop (ConvolverFFTW.block_size c1) (buffer c1)) @ left_samples (Arr1 [0, 0])"
    and tf2: "TF_left_blocked c2 =
           (if ConvolverFFTW.useSplittedFilters c1 \<and> buildNewFilter c1
            then take (late_early_transition c1) (TF_left_blocked c1) @ TF_late_left_blocked c1
            else TF_left_blocked c1)"
      "TF_right_blocked c2 =
           (if ConvolverFFTW.useSplittedFilters c1 \<and> buildNewFilter c1
            then take (late_early_transition c1) (TF_right_blocked c1) @ TF_late_right_blocked c1
            else TF_right_blocked c1)"
    and cnt2: "processCounter c2 = processCounter c1 + 1"
    by blast
  note lay2 = process_layout[OF run1]
  have sel2: "ConvolverFFTW.block_size c2 = 2" "IR_blocks c2 = 1"
      "late_early_transition c2 = 1" "\<not> ConvolverFFTW.useSplittedFilters c2"
      "buffer c2 = [0, 0, 0, 0]"
      "TF_left_blocked c2 = [[1, 1, 1]]" "TF_right_blocked c2 = [[1, 1, 1]]"
      "ConvolverFFTW.crossFadeIn c2 = [Some 0, Some 1]"
      "ConvolverFFTW.crossFadeOut c2 = [Some 1, Some 0]"
      "\<not> processStereo c2" "processCounter c2 = 1"
    using same2 buf2 tf2 cnt2 lay2 by (simp_all add: sel1 left_samples_def)
  define c3 where "c3 = c2\<lparr> TF_left_blocked := [[3, 3, 3]], TF_right_blocked := [[3, 3, 3]],
                interpolate := True, buildNewFilter := True \<rparr>"
  have set3: "setIR c2 ?f3 True 1 (PyFilter ?f1) = Inr c3"
    by (simp add: setIR_def arg_getFilterFD_def getFilterFD_def array_of_def andThen_simps sel2
        np_multiply2_def bmul_row_def np_scale2_def
        broadcast_to_def broadcast_row_def c3_def)
  have wf3: "conv_wf c3"
    using wf2 by (simp add: c3_def conv_wf_def rect_def sel2)
  have sel3: "ConvolverFFTW.block_size c3 = 2" "IR_blocks c3 = 1"
      "\<not> ConvolverFFTW.useSplittedFilters c3"
      "interpolate c3" "buffer c3 = [0, 0, 0, 0]"
      "TF_left_blocked c3 = [[3, 3, 3]]" "TF_right_blocked c3 = [[3, 3, 3]]"
      "ConvolverFFTW.crossFadeIn c3 = [Some 0, Some 1]"
      "ConvolverFFTW.crossFadeOut c3 = [Some 1, Some 0]"
      "\<not> processStereo c3" "processCounter c3 = 1"
    by (simp_all add: c3_def sel2)
  have fits3: "block_fits c3 (Arr1 [1, 0])"
    by (simp add: block_fits_def sel3)
  from process_wf[OF wf3 fits3] obtain c4 outL outR where
    run: "process c3 (Arr1 [1, 0]) = Inr (c4, outL, outR)" and wf4: "conv_wf c4"
    and same: "ConvolverFFTW.block_size c4 = ConvolverFFTW.block_size c3" "IR_blocks c4 = IR_blocks c3"
    and flag: "\<not> interpolate c4"
    and buf: "buffer c4 = (if processCounter c3 = 0 then take (ConvolverFFTW.block_size c3) (buffer c3)
                      else drop (ConvolverFFTW.block_size c3) (buffer c3)) @ left_samples (Arr1 [1, 0])"
    and fdl: "FDL_left c4 ! 0 = rfft (buffer c4)"
      "FDL_right c4 ! 0 = rfft (if processStereo c3 then buffer2 c4 else buffer c4)"
    and snap: "TF_left_blocked_previous c4 = TF_left_blocked c3"
      "TF_right_blocked_previous c4 = TF_right_blocked c3"
    and tf: "TF_left_blocked c4 =
           (if ConvolverFFTW.useSplittedFilters c3 \<and> buildNewFilter c3
            then take (late_early_transition c3) (TF_left_blocked c3) @ TF_late_left_blocked c3
            else TF_left_blocked c3)"
      "TF_right_blocked c4 =
           (if ConvolverFFTW.useSplittedFilters c3 \<and> buildNewFilter c3
            then take (late_early_transition c3) (TF_right_blocked c3) @ TF_late_right_blocked c3
            else TF_right_blocked c3)"
    and res: "resultLeftFreq c4 =
           spec_partition_sum (ConvolverFFTW.block_size c3) (TF_left_blocked c4) (FDL_left c4)"
      "resultRightFreq c4 =
           spec_partition_sum (ConvolverFFTW.block_size c3) (TF_right_blocked c4) (FDL_right c4)"
    and prev: "resultLeftFreqPrevious c4 =
           (if interpolate c3
            then spec_partition_sum (ConvolverFFTW.block_size c3) (TF_left_blocked_previous c4) (FDL_left c4)
            else resultLeftFreqPrevious c3)"
      "resultRightFreqPrevious c4 =
           (if interpolate c3
            then spec_partition_sum (ConvolverFFTW.block_size c3) (TF_right_blocked_previous c4) (FDL_right c4)
            else resultRightFreqPrevious c3)"
    and out: "outL =
           (if interpolate c3
            then crossfade (last_samples (ConvolverFFTW.block_size c3) (resultLeftFreq c4))
                   (ConvolverFFTW.crossFadeIn c3)
                   (last_samples (ConvolverFFTW.block_size c3) (resultLeftFreqPrevious c4))
                   (ConvolverFFTW.crossFadeOut c3)
            else map Some (last_samples (ConvolverFFTW.block_size c3) (resultLeftFreq c4)))"
      "outR =
           (if interpolate c3
            then crossfade (last_samples (ConvolverFFTW.block_size c3) (resultRightFreq c4))
                   (ConvolverFFTW.crossFadeIn c3)
                   (last_samples (ConvolverFFTW.block_size c3) (resultRightFreqPrevious c4))
                   (ConvolverFFTW.crossFadeOut c3)
            else map Some (last_samples (ConvolverFFTW.block_size c3) (resultRightFreq c4)))"
    by blast
  have buf': "buffer c4 = [0, 0, 1, 0]"
    using buf by (simp add: sel3 left_samples_def)
  have "rect 1 3 (FDL_left c4)" "rect 1 3 (FDL_right c4)"
    using wf4 same by (simp_all add: conv_wf_def sel3)
  then have fl: "FDL_left c4 = [[1, - 1, 1]]" and fr: "FDL_right c4 = [[1, - 1, 1]]"
    using rect_singleton[of 3 "FDL_left c4"] rect_singleton[of 3 "FDL_right c4"] fdl
    by (simp_all add: buf' rfft_impulse_at_2 sel3)
  have tf': "TF_left_blocked c4 = [[3, 3, 3]]" "TF_right_blocked c4 = [[3, 3, 3]]"
    using tf by (simp_all add: sel3)
  have snap': "TF_left_blocked_previous c4 = [[3, 3, 3]]" "TF_right_blocked_previous c4 = [[3, 3, 3]]"
    using snap by (simp_all add: sel3)
  have new: "last_samples 2 (spec_partition_sum 2 [[3, 3, 3]] [[1, - 1, 1]]) = [3, 0]"
    unfolding sums_3 by (simp add: last_samples_def irfft_alternating_3)
  have old: "last_samples 2 (spec_partition_sum 2 [[1, 1, 1]] [[1, - 1, 1]]) = [1, 0]"
    unfolding sums by (simp add: last_samples_def irfft_alternating)
  have outL: "outL = [Some 3, Some 0]"
    using out(1) unfolding res prev by (simp add: sel3 tf' snap' fl new cf_3)
  have outR: "outR = [Some 3, Some 0]"
    using out(2) unfolding res prev by (simp add: sel3 tf' snap' fr new cf_3)
  have blend: "crossfade [3, 0] (ConvolverFFTW.crossFadeIn c3) [1, 0] (ConvolverFFTW.crossFadeOut c3)
          = [Some 1, Some 0]"
    by (simp add: sel3 cf_3)
  show ?thesis
    apply (rule exI[of _ c0], rule exI[of _ ?f1], rule exI[of _ ?f3], rule exI[of _ c1])
    apply (rule exI[of _ c2], rule exI[of _ out1L], rule exI[of _ out1R], rule exI[of _ c3])
    apply (rule exI[of _ c4], rule exI[of _ outL], rule exI[of _ outR])
    using c0 late_filter_prepared gain_3_filter_prepared set1 run1 sel2(6,7) set3 sel3(4,6,7)
      run flag fl fr snap' new old blend outL outR
    by simp
qed


section \<open>Loading the filter list of the examples\<close>

lemma float_of_digits_values:
  "float_of_digits ''0'' = Inr 0" "float_of_digits ''30'' = Inr 30" "float_of_digits ''60'' = Inr 60"
  by (simp_all add: float_of_digits_def isdigit_def)

lemma upt_6: "[0..<6] = [0, 1, 2, 3, 4, 5]" "[0..<4] = [0, 1, 2, 3]" "[0..<3] = [0, 1, 2]"
  by (simp_all add: upt_rec)

lemma rfft_delta6: "rfft [a, 0, 0, 0, 0, 0] = [complex_of_real a, complex_of_real a, complex_of_real a, complex_of_real a]"
  by (simp add: rfft_def Let_def upt_6 complex_eq_iff)

lemma replicate_3: "replicate 3 (0::real) = [0, 0, 0]"
  by (simp add: numeral_eq_Suc)

lemma prepare_delta:
  "andThen (Filter_init (Arr2 [[a, b], [0, 0], [0, 0]] 2) 1 3 None)
     (\<lambda>f. storeInFDomain f \<lparr>plan_blocks = 1, plan_block_size = 3\<rparr>) = Inr (prepared_delta a b)"
  by (simp add: Filter_init_def np_column_def np_reshape_def andThen_simps storeInFDomain_def
      plan_call_def replicate_3 rfft_delta6 prepared_delta_def)

lemma zero_filter_3: 
  "zero_filter 3 1 3 \<lparr>plan_blocks = 1, plan_block_size = 3\<rparr> = Inr (prepared_delta 0 0)"
proof -
  have z: "np_zeros2 3 2 = Arr2 [[0, 0], [0, 0], [0, 0]] 2"
    by (simp add: np_zeros2_def numeral_eq_Suc)
  show ?thesis
    unfolding zero_filter_def z by (rule prepare_delta)
qed

lemma example_line1_facts:
  "str_split example_line1 = [''FILTER'', ''0'', ''0'', ''0'', ''0'', ''0'', ''0'', ''0'', ''0'', ''0'', ''a.wav'']"
  "startswith example_line1 ''#'' = False"
  "(example_line1 = [CHR 0x0A]) = False"
  "startswith example_line1 ''HPFILTER'' = False"
  "startswith example_line1 ''FILTER'' = True"
  "startswith example_line1 ''LATEREVERB'' = False"
  "startswith example_line1 ''DIRECTIVITY'' = False"
  by (simp_all add: example_line1_def str_split_def is_space_def startswith_def)

lemma example_line2_facts:
  "str_split example_line2 = [''FILTER'', ''30'', ''0'', ''0'', ''0'', ''0'', ''0'', ''0'', ''0'', ''0'', ''b.wav'']"
  "startswith example_line2 ''#'' = False"
  "(example_line2 = [CHR 0x0A]) = False"
  "startswith example_line2 ''HPFILTER'' = False"
  "startswith example_line2 ''FILTER'' = True"
  "startswith example_line2 ''LATEREVERB'' = False"
  "startswith example_line2 ''DIRECTIVITY'' = False"
  by (simp_all add: example_line2_def str_split_def is_space_def startswith_def)

lemma example_line3_facts:
  "str_split example_line3 = [''FILTER'', ''60'', ''0'', ''0'', ''0'', ''0'', ''0'', ''0'', ''0'', ''0'', ''c.wav'']"
  "startswith example_line3 ''#'' = False"
  "(example_line3 = [CHR 0x0A]) = False"
  "startswith example_line3 ''HPFILTER'' = False"
  "startswith example_line3 ''FILTER'' = True"
  "startswith example_line3 ''LATEREVERB'' = False"
  "startswith example_line3 ''DIRECTIVITY'' = False"
  by (simp_all add: example_line3_def str_split_def is_space_def startswith_def)

lemma example_line4_facts:
  "str_split example_line4 = [''LATEREVERB'', ''0'', ''0'', ''0'', ''0'', ''0'', ''0'', ''0'', ''0'', ''0'', ''l.wav'']"
  "startswith example_line4 ''#'' = False"
  "(example_line4 = [CHR 0x0A]) = False"
  "startswith example_line4 ''HPFILTER'' = False"
  "startswith example_line4 ''FILTER'' = False"
  "startswith example_line4 ''LATEREVERB'' = True"
  "startswith example_line4 ''DIRECTIVITY'' = False"
  by (simp_all add: example_line4_def str_split_def is_space_def startswith_def)

lemma example_line5_facts:
  "str_split example_line5 = [''DIRECTIVITY'', ''0'', ''0'', ''0'', ''0'', ''0'', ''0'', ''0'', ''0'', ''0'', ''d.wav'']"
  "startswith example_line5 ''#'' = False"
  "(example_line5 = [CHR 0x0A]) = False"
  "startswith example_line5 ''HPFILTER'' = False"
  "startswith example_line5 ''FILTER'' = False"
  "startswith example_line5 ''LATEREVERB'' = False"
  "startswith example_line5 ''DIRECTIVITY'' = True"
  by (simp_all add: example_line5_def str_split_def is_space_def startswith_def)

lemma isdigit_keywords:
  "isdigit ''FILTER'' = False" "isdigit ''LATEREVERB'' = False" "isdigit ''DIRECTIVITY'' = False"
  by (simp_all add: isdigit_def)

lemma parse_example_line1:
  "parse_filter_line st fs example_line1 =
     Inr (st, Some (Pose (example_key ''0''), ''a.wav'', Filter))"
  apply (simp only: parse_filter_line_def example_line1_facts if_False if_True Let_def simp_thms)
  apply (simp add: py_getitem_def py_index_def andThen_simps isdigit_keywords
      from_filterValueList_def example_key_def)
  done

lemma parse_example_line2:
  "parse_filter_line st fs example_line2 =
     Inr (st, Some (Pose (example_key ''30''), ''b.wav'', Filter))"
  apply (simp only: parse_filter_line_def example_line2_facts if_False if_True Let_def simp_thms)
  apply (simp add: py_getitem_def py_index_def andThen_simps isdigit_keywords
      from_filterValueList_def example_key_def)
  done

lemma parse_example_line3:
  "parse_filter_line st fs example_line3 =
     Inr (st, Some (Pose (example_key ''60''), ''c.wav'', Filter))"
  apply (simp only: parse_filter_line_def example_line3_facts if_False if_True Let_def simp_thms)
  apply (simp add: py_getitem_def py_index_def andThen_simps isdigit_keywords
      from_filterValueList_def example_key_def)
  done

lemma parse_example_line4:
  assumes "FilterStorage.useSplittedFilters st"
  shows "parse_filter_line st fs example_line4 =
     Inr (st, Some (Pose (example_key ''0''), ''l.wav'', LateReverbFilter))"
  using assms
  apply (simp only: parse_filter_line_def example_line4_facts if_False if_True Let_def simp_thms)
  apply (simp add: py_getitem_def py_index_def andThen_simps isdigit_keywords
      from_filterValueList_def example_key_def)
  done

lemma parse_example_line5:
  "parse_filter_line st fs example_line5 =
     Inr (st, Some (Pose (example_key ''0''), ''d.wav'', Directivity))"
  apply (simp only: parse_filter_line_def example_line5_facts if_False if_True Let_def simp_thms)
  apply (simp add: py_getitem_def py_index_def andThen_simps isdigit_keywords
      from_filterValueList_def example_key_def)
  done

lemma parse_example_list:
  assumes "FilterStorage.useSplittedFilters st"
  shows "parse_filter_list st fs example_filter_lines =
     Inr (st, [(Pose (example_key ''0''), ''a.wav'', Filter),
               (Pose (example_key ''30''), ''b.wav'', Filter),
               (Pose (example_key ''60''), ''c.wav'', Filter),
               (Pose (example_key ''0''), ''l.wav'', LateReverbFilter),
               (Pose (example_key ''0''), ''d.wav'', Directivity)])"
  by (simp add: example_filter_lines_def parse_example_line1 parse_example_line2
      parse_example_line3 parse_example_line4[OF assms] parse_example_line5 andThen_simps)

lemma prepare_delta_steps:
  "\<exists>f. Filter_init (Arr2 [[a, b], [0, 0], [0, 0]] 2) 1 3 None = Inr f
       \<and> storeInFDomain f \<lparr>plan_blocks = 1, plan_block_size = 3\<rparr> = Inr (prepared_delta a b)"
  using prepare_delta[of a b] by (auto simp: andThen_def split: sum.splits)

lemma example_orientation:
  "py_floats float_of_digits (orientation02 (Pose (example_key ''0''))) = Inr [0, 0]"
  "py_floats float_of_digits (orientation02 (Pose (example_key ''30''))) = Inr [30, 0]"
  "py_floats float_of_digits (orientation02 (Pose (example_key ''60''))) = Inr [60, 0]"
  by (simp_all add: orientation02_def example_key_def py_float_def float_of_digits_values
      andThen_simps)

lemma load_entry_filter:
  assumes "ir_size st = 3" "FilterStorage.ir_blocks st = 1" "FilterStorage.block_size st = 3"
    and "filter_fftw_plan st = \<lparr>plan_blocks = 1, plan_block_size = 3\<rparr>"
    and "fs path = Some (Arr2 [[a, b], [0, 0], [0, 0]] 2)"
    and "py_floats fc (orientation02 pose) = Inr coords"
  shows "load_entry fc fs st (pose, path, Filter) =
           Inr (st\<lparr>filter_dict := (filter_dict st)(create_key pose \<mapsto> prepared_delta a b),
                  filter_arr := filter_arr st @ [coords]\<rparr>)"
proof -
  from prepare_delta_steps[of a b] obtain f where
    f: "Filter_init (Arr2 [[a, b], [0, 0], [0, 0]] 2) 1 3 None = Inr f"
       "storeInFDomain f \<lparr>plan_blocks = 1, plan_block_size = 3\<rparr> = Inr (prepared_delta a b)"
    by blast
  have lf: "load_filter st fs path Filter = Inr (Arr2 [[a, b], [0, 0], [0, 0]] 2)"
    by (simp add: load_filter_def sf_read_def assms(1,5) andThen_simps shape0_def Let_def)
  show ?thesis
    by (simp add: load_entry_def lf assms f[unfolded One_nat_def] andThen_simps)
qed

lemma load_entry_late:
  assumes "lateReverbSize st = Some 3" "late_ir_blocks st = Some 1" "FilterStorage.block_size st = 3"
    and "late_filter_fftw_plan st = Some \<lparr>plan_blocks = 1, plan_block_size = 3\<rparr>"
    and "fs path = Some (Arr2 [[a, b], [0, 0], [0, 0]] 2)"
    and "py_floats fc (orientation02 pose) = Inr coords"
  shows "load_entry fc fs st (pose, path, LateReverbFilter) =
           Inr (st\<lparr>late_reverb_filter_dict :=
                    (late_reverb_filter_dict st)(create_key pose \<mapsto> prepared_delta a b),
                  late_reverb_arr := late_reverb_arr st @ [coords]\<rparr>)"
proof -
  from prepare_delta_steps[of a b] obtain f where
    f: "Filter_init (Arr2 [[a, b], [0, 0], [0, 0]] 2) 1 3 None = Inr f"
       "storeInFDomain f \<lparr>plan_blocks = 1, plan_block_size = 3\<rparr> = Inr (prepared_delta a b)"
    by blast
  have lf: "load_filter st fs path LateReverbFilter = Inr (Arr2 [[a, b], [0, 0], [0, 0]] 2)"
    by (simp add: load_filter_def sf_read_def assms(1,5) andThen_simps shape0_def Let_def attr_def)
  show ?thesis
    by (simp add: load_entry_def lf assms f[unfolded One_nat_def] andThen_simps attr_def)
qed

lemma load_entry_directivity:
  assumes "directivitySize st = 3" "dir_ir_blocks st = 1" "FilterStorage.block_size st = 3"
    and "filter_fftw_plan st = \<lparr>plan_blocks = 1, plan_block_size = 3\<rparr>"
    and "fs path = Some (Arr1 [a, 0, 0])"
    and "py_floats fc (orientation02 pose) = Inr coords"
  shows "load_entry fc fs st (pose, path, Directivity) =
           Inr (st\<lparr>directivity_dict :=
                    (directivity_dict st)(create_key pose \<mapsto> prepared_delta a a),
                  directivity_arr := directivity_arr st @ [coords]\<rparr>)"
proof -
  from prepare_delta_steps[of a a] obtain f where
    f: "Filter_init (Arr2 [[a, a], [0, 0], [0, 0]] 2) 1 3 None = Inr f"
       "storeInFDomain f \<lparr>plan_blocks = 1, plan_block_size = 3\<rparr> = Inr (prepared_delta a a)"
    by blast
  have lf: "load_filter st fs path Directivity = Inr (Arr2 [[a, a], [0, 0], [0, 0]] 2)"
    by (simp add: load_filter_def sf_read_def assms(1,5) andThen_simps shape0_def Let_def
        np_column_stack2_def)
  show ?thesis
    by (simp add: load_entry_def lf assms f[unfolded One_nat_def] andThen_simps)
qed

lemma example_files:
  "example_wav_files ''a.wav'' = Some (Arr2 [[1, 1], [0, 0], [0, 0]] 2)"
  "example_wav_files ''b.wav'' = Some (Arr2 [[2, 2], [0, 0], [0, 0]] 2)"
  "example_wav_files ''c.wav'' = Some (Arr2 [[3, 3], [0, 0], [0, 0]] 2)"
  "example_wav_files ''l.wav'' = Some (Arr2 [[1, 1], [0, 0], [0, 0]] 2)"
  "example_wav_files ''d.wav'' = Some (Arr1 [1, 0, 0])"
  "example_wav_files ''s.wav'' = Some (Arr2 [[1, 1]] 2)"
  by (simp_all add: example_wav_files_def)

lemma load_example:
  assumes "ir_size st = 3" "FilterStorage.ir_blocks st = 1" "FilterStorage.block_size st = 3"
    and "filter_fftw_plan st = \<lparr>plan_blocks = 1, plan_block_size = 3\<rparr>"
    and "FilterStorage.useSplittedFilters st"
    and "lateReverbSize st = Some 3" "late_ir_blocks st = Some 1"
    and "late_filter_fftw_plan st = Some \<lparr>plan_blocks = 1, plan_block_size = 3\<rparr>"
    and "directivitySize st = 3" "dir_ir_blocks st = 1"
    and "filter_dict st = Map.empty" "filter_arr st = []"
    and "late_reverb_arr st = []" "directivity_arr st = []"
  shows "\<exists>st'. load_filters float_of_digits example_wav_files example_filter_lines st = Inr st'
      \<and> filter_arr st' = [[0, 0], [30, 0], [60, 0]]
      \<and> filter_tree st' = Some (KDTree [[0, 0], [30, 0], [60, 0]])
      \<and> filter_dict st' = [example_key ''0'' \<mapsto> prepared_delta 1 1,
                            example_key ''30'' \<mapsto> prepared_delta 2 2,
                            example_key ''60'' \<mapsto> prepared_delta 3 3]
      \<and> default_filter st' = default_filter st
      \<and> lateReverbSize st' = Some 3
      \<and> ir_size st' = 3
      \<and> directivitySize st' = 3"
proof -
  let ?fc = float_of_digits and ?fs = example_wav_files
  define s1 where "s1 = st\<lparr>filter_dict := (filter_dict st)(example_key ''0'' \<mapsto> prepared_delta 1 1),
                  filter_arr := filter_arr st @ [[0, 0]]\<rparr>"
  define s2 where "s2 = s1\<lparr>filter_dict := (filter_dict s1)(example_key ''30'' \<mapsto> prepared_delta 2 2),
                  filter_arr := filter_arr s1 @ [[30, 0]]\<rparr>"
  define s3 where "s3 = s2\<lparr>filter_dict := (filter_dict s2)(example_key ''60'' \<mapsto> prepared_delta 3 3),
                  filter_arr := filter_arr s2 @ [[60, 0]]\<rparr>"
  define s4 where "s4 = s3\<lparr>late_reverb_filter_dict :=
                    (late_reverb_filter_dict s3)(example_key ''0'' \<mapsto> prepared_delta 1 1),
                  late_reverb_arr := late_reverb_arr s3 @ [[0, 0]]\<rparr>"
  define s5 where "s5 = s4\<lparr>directivity_dict :=
                    (directivity_dict s4)(example_key ''0'' \<mapsto> prepared_delta 1 1),
                  directivity_arr := directivity_arr s4 @ [[0, 0]]\<rparr>"
  define s6 where "s6 = s5\<lparr>filter_tree := Some (KDTree [[0, 0], [30, 0], [60, 0]]),
                         late_reverb_tree := Some (KDTree [[0, 0]]),
                         directivity_tree := Some (KDTree [[0, 0]])\<rparr>"
  note defs = s1_def s2_def s3_def s4_def s5_def
  have e1: "load_entry ?fc ?fs st (Pose (example_key ''0''), ''a.wav'', Filter) = Inr s1"
    unfolding s1_def
    using load_entry_filter[of st ?fs "''a.wav''" 1 1 ?fc "Pose (example_key ''0'')" "[0, 0]"]
    by (simp add: assms example_files example_orientation create_key_def)
  have e2: "load_entry ?fc ?fs s1 (Pose (example_key ''30''), ''b.wav'', Filter) = Inr s2"
    unfolding s2_def
    using load_entry_filter[of s1 ?fs "''b.wav''" 2 2 ?fc "Pose (example_key ''30'')" "[30, 0]"]
    by (simp add: s1_def assms example_files example_orientation create_key_def)
  have e3: "load_entry ?fc ?fs s2 (Pose (example_key ''60''), ''c.wav'', Filter) = Inr s3"
    unfolding s3_def
    using load_entry_filter[of s2 ?fs "''c.wav''" 3 3 ?fc "Pose (example_key ''60'')" "[60, 0]"]
    by (simp add: s1_def s2_def assms example_files example_orientation create_key_def)
  have e4: "load_entry ?fc ?fs s3 (Pose (example_key ''0''), ''l.wav'', LateReverbFilter) = Inr s4"
    unfolding s4_def
    using load_entry_late[of s3 ?fs "''l.wav''" 1 1 ?fc "Pose (example_key ''0'')" "[0, 0]"]
    by (simp add: s1_def s2_def s3_def assms example_files example_orientation create_key_def)
  have e5: "load_entry ?fc ?fs s4 (Pose (example_key ''0''), ''d.wav'', Directivity) = Inr s5"
    unfolding s5_def
    using load_entry_directivity[of s4 ?fs "''d.wav''" 1 ?fc "Pose (example_key ''0'')" "[0, 0]"]
    by (simp add: s1_def s2_def s3_def s4_def assms example_files example_orientation create_key_def)
  have arrs: "filter_arr s5 = [[0, 0], [30, 0], [60, 0]]" "late_reverb_arr s5 = [[0, 0]]"
      "directivity_arr s5 = [[0, 0]]"
    by (simp_all add: defs assms)
  have trees: "KDTree_build (filter_arr s5) = Inr (KDTree [[0, 0], [30, 0], [60, 0]])"
      "KDTree_build (late_reverb_arr s5) = Inr (KDTree [[0, 0]])"
      "KDTree_build (directivity_arr s5) = Inr (KDTree [[0, 0]])"
    unfolding arrs by (simp_all add: KDTree_build_def)
  have run: "load_filters ?fc ?fs example_filter_lines st = Inr s6"
    unfolding load_filters_def parse_example_list[OF assms(5)] andThen_simps prod.case
      load_entries.simps e1 e2 e3 e4 e5 trees s6_def
    by (rule refl)
  have sel: "filter_arr s6 = [[0, 0], [30, 0], [60, 0]]"
      "filter_tree s6 = Some (KDTree [[0, 0], [30, 0], [60, 0]])"
      "filter_dict s6 = [example_key ''0'' \<mapsto> prepared_delta 1 1,
                            example_key ''30'' \<mapsto> prepared_delta 2 2,
                            example_key ''60'' \<mapsto> prepared_delta 3 3]"
      "default_filter s6 = default_filter st"
      "lateReverbSize s6 = Some 3" "ir_size s6 = 3" "directivitySize s6 = 3"
    by (simp_all add: s6_def defs assms)
  show ?thesis
    using run sel by blast
qed

lemma example_storage:
  "\<exists>st. example_storage_init = Inr st
      \<and> filter_arr st = [[0, 0], [30, 0], [60, 0]]
      \<and> filter_tree st = Some (KDTree [[0, 0], [30, 0], [60, 0]])
      \<and> filter_dict st = [example_key ''0'' \<mapsto> prepared_delta 1 1,
                           example_key ''30'' \<mapsto> prepared_delta 2 2,
                           example_key ''60'' \<mapsto> prepared_delta 3 3]
      \<and> default_filter st = prepared_delta 0 0
      \<and> lateReverbSize st = Some 3
      \<and> ir_size st = 3
      \<and> directivitySize st = 3"
proof -
  define st0 where "st0 =
         \<lparr> ir_size = 3,
           FilterStorage.ir_blocks = 1,
           FilterStorage.block_size = 3,
           filter_fftw_plan = \<lparr>plan_blocks = 1, plan_block_size = 3\<rparr>,
           default_filter = prepared_delta 0 0,
           FilterStorage.crossFadeOut = cosine_square_window 3,
           FilterStorage.crossFadeIn = rev (cosine_square_window 3),
           useHeadphoneFilter = False,
           headPhoneFilterSize = None,
           headphone_ir_blocks = None,
           hp_filter_fftw_plan = None,
           FilterStorage.useSplittedFilters = True,
           lateReverbSize = Some 3,
           late_ir_blocks = Some 1,
           late_filter_fftw_plan = Some \<lparr>plan_blocks = 1, plan_block_size = 3\<rparr>,
           default_late_reverb_filter = Some (prepared_delta 0 0),
           directivitySize = 3,
           dir_ir_blocks = 1,
           default_directivity_filter = prepared_delta 0 0,
           headphone_filter = None,
           filter_dict = Map.empty,
           late_reverb_filter_dict = Map.empty,
           directivity_dict = Map.empty,
           filter_arr = [],
           late_reverb_arr = [],
           directivity_arr = [],
           filter_tree = None,
           late_reverb_tree = None,
           directivity_tree = None \<rparr>"
  have init: "example_storage_init =
                load_filters float_of_digits example_wav_files example_filter_lines st0"
    by (simp add: example_storage_init_def FilterStorage_init_def py_floordiv_def
        zero_filter_3 zero_filter_3[unfolded One_nat_def] andThen_simps st0_def)
  from load_example[of st0] obtain st' where
    "load_filters float_of_digits example_wav_files example_filter_lines st0 = Inr st'"
    "filter_arr st' = [[0, 0], [30, 0], [60, 0]]"
    "filter_tree st' = Some (KDTree [[0, 0], [30, 0], [60, 0]])"
    "filter_dict st' = [example_key ''0'' \<mapsto> prepared_delta 1 1,
                            example_key ''30'' \<mapsto> prepared_delta 2 2,
                            example_key ''60'' \<mapsto> prepared_delta 3 3]"
    "default_filter st' = default_filter st0"
    "lateReverbSize st' = Some 3" "ir_size st' = 3" "directivitySize st' = 3"
    by (auto simp: st0_def)
  then show ?thesis
    unfolding init by (intro exI[of _ st']) (simp add: st0_def)
qed

lemma example_queries:
  "KDTree_query (KDTree [[0, 0], [30, 0], [60, 0]]) [20, 0] = Inr 1"
  "KDTree_query (KDTree [[0, 0], [30, 0], [60, 0]]) [14, 0] = Inr 0"
  by (simp_all add: KDTree_query_def sqdist_def)

lemma get_filter_example:
  assumes "filter_arr st = [[0, 0], [30, 0], [60, 0]]"
    and "filter_tree st = Some (KDTree [[0, 0], [30, 0], [60, 0]])"
    and "filter_dict st = [example_key ''0'' \<mapsto> prepared_delta 1 1,
                           example_key ''30'' \<mapsto> prepared_delta 2 2,
                           example_key ''60'' \<mapsto> prepared_delta 3 3]"
  shows "get_filter float_of_digits st (example_pose 20 0) =
           Inr ([''Filter not found: key: ''], default_filter st)"
    and "get_filter float_of_digits st (example_pose 14 0) =
           Inr ([''Filter not found: key: ''], default_filter st)"
  by (simp_all add: get_filter_def example_pose_def from_filterValueList_def orientation02_def
      py_float_def andThen_simps attr_def assms example_queries py_getitem_def py_index_def
      create_key_def example_key_def numeral_eq_Suc Let_def)



section \<open>Properties of run\_server\<close>

lemma parse_pose_input_out_of_range:
  assumes "parser_channels p (nat m)" and "m \<le> ch"
  shows "parse_pose_input p ch az el = Inl IndexError"
proof -
  have len: "length (valueList p) = nat m"
    using assms(1) by (simp add: parser_channels_def)
  have "py_index (valueList p) ch = Inl IndexError"
    using assms(2) by (auto simp: py_index_def len Let_def)
  then show ?thesis
    by (simp add: parse_pose_input_def py_getitem_def)
qed

lemma np_reshape_two_columns:
  assumes "length payload = n * 2"
  shows "np_reshape payload n 2 = Inr (map (\<lambda>i. take 2 (drop (i * 2) payload)) [0..<n])"
  using assms by (simp add: np_reshape_def)

lemma reshaped_item:
  assumes "length payload = n * 2" and "i < n" and "j < 2"
  shows "map (\<lambda>i. take 2 (drop (i * 2) payload)) [0..<n] ! i ! j = payload ! (i * 2 + j)"
  using assms by simp

lemma serve_request_out_of_range:
  assumes "parser_channels (poseParser e) (nat (maxChannels e))"
    and "inChannels e = 2" and "3 \<le> blockSize e"
    and "length (block e) = blockSize e"
    and "length payload = blockSize e * 2"
    and "maxChannels e \<le> py_int_of_float (payload ! 1)"
  shows "serve_request float_ctor e payload = Inl IndexError"
proof -
  let ?n = "blockSize e"
  let ?rows = "map (\<lambda>i. take 2 (drop (i * 2) payload)) [0..<?n]"
  have resh: "np_reshape2 payload ?n (inChannels e) = Inr (Arr2 ?rows 2)"
    by (simp add: np_reshape2_def assms(2) np_reshape_two_columns[OF assms(5)] andThen_simps)
  have col: "np_column (Arr2 ?rows 2) 0 = Inr (map (\<lambda>r. r ! 0) ?rows)"
    by (simp add: np_column_def)
  have asg: "assign_vec (length (block e)) (map (\<lambda>r. r ! 0) ?rows) = Inr (map (\<lambda>r. r ! 0) ?rows)"
    by (simp add: assign_vec_def assms(4))
  have items: "np_item (Arr2 ?rows 2) 0 1 = Inr (payload ! 1)"
      "np_item (Arr2 ?rows 2) 1 1 = Inr (payload ! 3)"
      "np_item (Arr2 ?rows 2) 2 1 = Inr (payload ! 5)"
    using assms(3) reshaped_item[OF assms(5), of 0 1] reshaped_item[OF assms(5), of 1 1]
      reshaped_item[OF assms(5), of 2 1]
    by (simp_all add: np_item_def)
  have pp: "parse_pose_input (poseParser e) (py_int_of_float (payload ! 1)) az el = Inl IndexError"
    for az el
    by (rule parse_pose_input_out_of_range[OF assms(1,6)])
  show ?thesis
    apply (simp only: serve_request_def resh andThen_simps col asg Let_def items)
    apply (simp add: pp pp[unfolded One_nat_def] andThen_simps)
    done
qed

lemma example_convolver:
  "\<exists>c. ConvolverFFTW_init 3 3 False True 3 = Inr c"
  by (simp add: ConvolverFFTW_init_def py_floordiv_def andThen_simps Let_def)

lemma example_engine_facts:
  "parser_channels (poseParser (example_engine st c)) (nat (maxChannels (example_engine st c)))"
  "inChannels (example_engine st c) = 2"
  "blockSize (example_engine st c) = 3"
  "block (example_engine st c) = [0, 0, 0]"
  "maxChannels (example_engine st c) = 2"
  using init_parser_channels[of 2] by (simp_all add: example_engine_def)

lemma example_payload_facts:
  "py_int_of_float 5 = 5" "py_int_of_float 0 = 0"
  by (simp_all add: py_int_of_float_def)

lemma example_payload_items:
  "py_int_of_float ([0, 5, 0, 0, 0, 0] ! 1) = 5"
  "py_int_of_float ([0, 5, 0, 0, 0, 0] ! 3) = 0"
  "py_int_of_float ([0, 5, 0, 0, 0, 0] ! 5) = 0"
  by (simp_all add: py_int_of_float_def numeral_eq_Suc)

text \<open>
  Claim C5, as the code has it.  A request whose channel id is \<open>maxChannels\<close> or more
  makes \<open>parse_pose_input\<close> raise \<open>IndexError\<close> at \<open>valueList[channel]\<close>.  The loop of
  \<open>run_server\<close> catches \<open>zmq.ZMQError\<close> only: the exception leaves \<open>serve_request\<close>
  and ends \<open>run_server\<close>.  No diagnostic is logged, no reply is sent, and no later
  request is served.
\<close>

theorem out_of_range_channel_ends_server:
  assumes "parser_channels (poseParser e) (nat (maxChannels e))"
    and "inChannels e = 2" and "3 \<le> blockSize e"
    and "length (block e) = blockSize e"
    and "length payload = blockSize e * 2"
    and "maxChannels e \<le> py_int_of_float (payload ! 1)"
  shows "parse_pose_input (poseParser e) (py_int_of_float (payload ! 1))
           (py_int_of_float (payload ! 3)) (py_int_of_float (payload ! 5)) = Inl IndexError
       \<and> serve_request float_ctor e payload = Inl IndexError
       \<and> run_server float_ctor e (Request payload sent # evs) = Inl IndexError"
  using parse_pose_input_out_of_range[OF assms(1,6)] serve_request_out_of_range[OF assms]
  by (simp add: andThen_simps)

theorem out_of_range_channel_ends_server_witness:
  "\<exists>st c. example_storage_init = Inr st
     \<and> ConvolverFFTW_init 3 3 False True 3 = Inr c
     \<and> parser_channels (poseParser (example_engine st c)) (nat (maxChannels (example_engine st c)))
     \<and> inChannels (example_engine st c) = 2
     \<and> 3 \<le> blockSize (example_engine st c)
     \<and> length (block (example_engine st c)) = blockSize (example_engine st c)
     \<and> length [0, 5, 0, 0, 0, 0 :: real] = blockSize (example_engine st c) * 2
     \<and> maxChannels (example_engine st c) \<le> py_int_of_float ([0, 5, 0, 0, 0, 0] ! 1)
     \<and> parse_pose_input (poseParser (example_engine st c)) 5 0 0 = Inl IndexError
     \<and> serve_request float_of_digits (example_engine st c) [0, 5, 0, 0, 0, 0] = Inl IndexError
     \<and> run_server float_of_digits (example_engine st c) [Request [0, 5, 0, 0, 0, 0] True]
         = Inl IndexError"
proof -
  obtain st where st: "example_storage_init = Inr st"
    using example_storage by blast
  obtain c where c: "ConvolverFFTW_init 3 3 False True 3 = Inr c"
    using example_convolver by blast
  have hyps: "parser_channels (poseParser (example_engine st c)) (nat (maxChannels (example_engine st c)))"
    "inChannels (example_engine st c) = 2"
    "3 \<le> blockSize (example_engine st c)"
    "length (block (example_engine st c)) = blockSize (example_engine st c)"
    "length [0, 5, 0, 0, 0, 0 :: real] = blockSize (example_engine st c) * 2"
    "maxChannels (example_engine st c) \<le> py_int_of_float ([0, 5, 0, 0, 0, 0] ! 1)"
    by (rule example_engine_facts(1))
      (simp_all add: example_engine_facts(2-) example_payload_facts)
  have "parse_pose_input (poseParser (example_engine st c)) 5 0 0 = Inl IndexError
     \<and> serve_request float_of_digits (example_engine st c) [0, 5, 0, 0, 0, 0] = Inl IndexError
     \<and> run_server float_of_digits (example_engine st c) [Request [0, 5, 0, 0, 0, 0] True]
         = Inl IndexError"
    by (rule out_of_range_channel_ends_server[OF hyps, of float_of_digits True "[]",
          unfolded example_payload_items])
  with st c hyps show ?thesis
    by blast
qed

text \<open>
  Claim C5 as the specification words it does not hold.  The engine of the example has
  two channels; a request for channel 5, followed by a well-formed request for channel
  0, ends the server with \<open>IndexError\<close>: the second request is not served, and the
  result carries no engine state and no diagnostic.
\<close>

theorem out_of_range_channel_counterexample:
  "\<exists>st c. example_storage_init = Inr st
     \<and> ConvolverFFTW_init 3 3 False True 3 = Inr c
     \<and> maxChannels (example_engine st c) = 2
     \<and> run_server float_of_digits (example_engine st c)
         [Request [0, 5, 0, 0, 0, 0] True, Request [0, 0, 0, 0, 0, 0] True] = Inl IndexError"
proof -
  obtain st where st: "example_storage_init = Inr st"
    using example_storage by blast
  obtain c where c: "ConvolverFFTW_init 3 3 False True 3 = Inr c"
    using example_convolver by blast
  have "serve_request float_of_digits (example_engine st c) [0, 5, 0, 0, 0, 0] = Inl IndexError"
  proof (rule serve_request_out_of_range)
    show "parser_channels (poseParser (example_engine st c))
            (nat (maxChannels (example_engine st c)))"
      by (rule example_engine_facts(1))
  qed (simp_all add: example_engine_facts(2-) example_payload_facts)
  then have "run_server float_of_digits (example_engine st c)
         [Request [0, 5, 0, 0, 0, 0] True, Request [0, 0, 0, 0, 0, 0] True] = Inl IndexError"
    by (simp add: andThen_simps)
  with st c show ?thesis
    by (auto simp: example_engine_facts)
qed



section \<open>Properties of get\_filter\<close>

text \<open>
  Claim C2, at the inputs where the code departs from it.  The storage of the example
  is loaded from a list with directional filters at (0, 0), (30, 0) and (60, 0), which
  \<open>load_filters\<close> stores under keys of the tokens of their lines.  For the pose
  (20, 0) the KD-tree finds the coordinate (30, 0), and for (14, 0) the coordinate
  (0, 0); the key \<open>get_filter\<close> rebuilds from the matched coordinate has floating-point
  fields, is not a key of the map, and the default filter of zeros is returned with the
  warning that no filter was found.
\<close>

theorem get_filter_returns_default_filter:
  "\<exists>st. example_storage_init = Inr st
     \<and> filter_tree st = Some (KDTree [[0, 0], [30, 0], [60, 0]])
     \<and> filter_dict st (example_key ''0'') = Some (prepared_delta 1 1)
     \<and> filter_dict st (example_key ''30'') = Some (prepared_delta 2 2)
     \<and> KDTree_query (KDTree [[0, 0], [30, 0], [60, 0]]) [20, 0] = Inr 1
     \<and> KDTree_query (KDTree [[0, 0], [30, 0], [60, 0]]) [14, 0] = Inr 0
     \<and> py_getitem (filter_arr st) 1 = Inr [30, 0]
     \<and> py_getitem (filter_arr st) 0 = Inr [0, 0]
     \<and> get_filter float_of_digits st (example_pose 20 0)
         = Inr ([''Filter not found: key: ''], prepared_delta 0 0)
     \<and> get_filter float_of_digits st (example_pose 14 0)
         = Inr ([''Filter not found: key: ''], prepared_delta 0 0)
     \<and> prepared_delta 0 0 \<noteq> prepared_delta 2 2
     \<and> prepared_delta 0 0 \<noteq> prepared_delta 1 1"
proof -
  obtain st where st: "example_storage_init = Inr st"
    and arr: "filter_arr st = [[0, 0], [30, 0], [60, 0]]"
    and tree: "filter_tree st = Some (KDTree [[0, 0], [30, 0], [60, 0]])"
    and dict: "filter_dict st = [example_key ''0'' \<mapsto> prepared_delta 1 1,
                           example_key ''30'' \<mapsto> prepared_delta 2 2,
                           example_key ''60'' \<mapsto> prepared_delta 3 3]"
    and dflt: "default_filter st = prepared_delta 0 0"
    using example_storage by blast
  have keys: "filter_dict st (example_key ''0'') = Some (prepared_delta 1 1)"
    "filter_dict st (example_key ''30'') = Some (prepared_delta 2 2)"
    by (simp_all add: dict example_key_def)
  have items: "py_getitem (filter_arr st) 1 = Inr [30, 0]"
    "py_getitem (filter_arr st) 0 = Inr [0, 0]"
    by (simp_all add: arr py_getitem_def py_index_def)
  have neq: "prepared_delta 0 0 \<noteq> prepared_delta 2 2" "prepared_delta 0 0 \<noteq> prepared_delta 1 1"
    by (simp_all add: prepared_delta_def)
  show ?thesis
    using st tree keys items neq get_filter_example[OF arr tree dict] example_queries
    unfolding dflt by blast
qed

section \<open>A short late-reverb file\<close>

lemma example_short_file:
  "example_wav_files ''s.wav'' = Some (Arr2 [[1, 1]] 2)"
  "shape0 (Arr2 [[1, 1]] 2) = 1"
  by (simp_all add: example_wav_files_def shape0_def)

theorem load_filter_short_late_reverb_unpadded_witness:
  "\<exists>st. example_storage_init = Inr st
     \<and> example_wav_files ''s.wav'' = Some (Arr2 [[1, 1]] 2)
     \<and> lateReverbSize st = Some 3
     \<and> shape0 (Arr2 [[1, 1]] 2) < 3
     \<and> load_filter st example_wav_files ''s.wav'' LateReverbFilter = Inr (Arr2 [[1, 1]] 2)
     \<and> shape0 (Arr2 [[1, 1]] 2) \<noteq> 3"
proof -
  obtain st where st: "example_storage_init = Inr st" and late: "lateReverbSize st = Some 3"
    using example_storage by blast
  have short: "shape0 (Arr2 [[1, 1]] 2) < 3"
    by (simp add: example_short_file)
  show ?thesis
    using load_filter_short_late_reverb_unpadded[where fs = example_wav_files
        and filter_path = "''s.wav''" and a = "Arr2 [[1, 1]] 2" and st = st and n = 3,
        OF example_short_file(1) late short] st late
      example_short_file(1) short
    by blast
qed



end
